theory Spec2Isabelle
  imports Complex_Main "HOL-Library.Char_ord" "HOL-Library.List_Lexorder"
begin

section \<open>JavaScript numbers\<close>

text \<open>
  A JavaScript number is NaN, an infinity or a finite IEEE-754 double. A finite
  double is the rational it denotes; \<open>round_double\<close> gives the double nearest to a
  real value, a tie going to the even significand, and the arithmetic operators round
  their exact result with it, as ECMAScript defines them. The cells, the records and
  the parsers hold doubles. The negative zero is not modelled.
\<close>

datatype jsnum = NaN | PInf | NInf | Fin rat

text \<open>\<open>ilog2 n\<close> is the integer part of the binary logarithm of a positive integer.\<close>

function ilog2 :: "int \<Rightarrow> int" where
  "ilog2 n = (if n \<le> 1 then 0 else 1 + ilog2 (n div 2))"
  by pat_completeness auto
termination
  by (relation "measure nat") auto

declare ilog2.simps [simp del]

definition pow2 :: "int \<Rightarrow> rat" where
  "pow2 e = (if 0 \<le> e then 2 ^ nat e else 1 / 2 ^ nat (- e))"

text \<open>The exponent \<open>e\<close> of a positive value \<open>a\<close>: \<open>2^e \<le> a < 2^(e + 1)\<close>.\<close>

definition binary_exponent :: "rat \<Rightarrow> int" where
  "binary_exponent a =
     (let (p, q) = quotient_of a; e0 = ilog2 p - ilog2 q
      in if pow2 e0 \<le> a then e0 else e0 - 1)"

definition round_half_even :: "rat \<Rightarrow> int" where
  "round_half_even y =
     (let f = \<lfloor>y\<rfloor>; d = y - of_int f
      in if d < 1 / 2 then f else if 1 / 2 < d then f + 1 else if even f then f else f + 1)"

text \<open>\<open>2^1024\<close>, the first power of two beyond the doubles.\<close>

definition double_overflow :: rat where
  "double_overflow = 179769313486231590772930519078902473361797697894230657273430081157732675805500963132708477322407536021120113879871393357658789768814416622492847430639474124377767893424865485276302219601246094119453082952085005768838150682342462881473913110540827237163350510684586298239947245938479716304835356329624224137216"

text \<open>
  The double of a real value: 53 significant bits at the value's exponent, the
  exponent never below \<open>-1022\<close> (the subnormal numbers), and an infinity when the
  rounded value reaches \<open>2^1024\<close>.
\<close>

definition round_double :: "rat \<Rightarrow> jsnum" where
  "round_double x =
     (if x = 0 then Fin 0
      else
        (let a = \<bar>x\<bar>;
             e = max (binary_exponent a) (- 1022);
             q = pow2 (e - 52);
             r = of_int (round_half_even (a / q)) * q
         in if double_overflow \<le> r then (if x < 0 then NInf else PInf)
            else Fin (if x < 0 then - r else r)))"

fun js_add :: "jsnum \<Rightarrow> jsnum \<Rightarrow> jsnum" where
  "js_add (Fin a) (Fin b) = round_double (a + b)"
| "js_add NaN _ = NaN"
| "js_add _ NaN = NaN"
| "js_add PInf NInf = NaN"
| "js_add NInf PInf = NaN"
| "js_add PInf _ = PInf"
| "js_add _ PInf = PInf"
| "js_add NInf _ = NInf"
| "js_add _ NInf = NInf"

fun js_neg :: "jsnum \<Rightarrow> jsnum" where
  "js_neg NaN = NaN"
| "js_neg PInf = NInf"
| "js_neg NInf = PInf"
| "js_neg (Fin a) = Fin (- a)"

definition js_sub :: "jsnum \<Rightarrow> jsnum \<Rightarrow> jsnum" where
  "js_sub a b = js_add a (js_neg b)"

text \<open>The sign of a number that is not NaN: \<open>1\<close>, \<open>0\<close> or \<open>-1\<close>.\<close>

fun js_sgn :: "jsnum \<Rightarrow> int" where
  "js_sgn NaN = 0"
| "js_sgn PInf = 1"
| "js_sgn NInf = - 1"
| "js_sgn (Fin a) = (if a < 0 then - 1 else if a = 0 then 0 else 1)"

fun js_mul :: "jsnum \<Rightarrow> jsnum \<Rightarrow> jsnum" where
  "js_mul (Fin a) (Fin b) = round_double (a * b)"
| "js_mul NaN _ = NaN"
| "js_mul _ NaN = NaN"
| "js_mul a b =
     (if js_sgn a = 0 \<or> js_sgn b = 0 then NaN
      else if js_sgn a = js_sgn b then PInf else NInf)"

text \<open>
  Division: \<open>0 / 0\<close> is NaN, a non-zero finite number over zero is an infinity of the
  numerator's sign (the zero divisor is the positive zero: no negative zero here).
\<close>

fun js_div :: "jsnum \<Rightarrow> jsnum \<Rightarrow> jsnum" where
  "js_div NaN _ = NaN"
| "js_div _ NaN = NaN"
| "js_div (Fin a) (Fin b) =
     (if b = 0 then (if a = 0 then NaN else if 0 < a then PInf else NInf)
      else round_double (a / b))"
| "js_div (Fin a) _ = Fin 0"
| "js_div a (Fin b) = (if js_sgn a = (if b < 0 then - 1 else 1) then PInf else NInf)"
| "js_div _ _ = NaN"

text \<open>\<open>a > b\<close>: false as soon as one side is NaN.\<close>

fun js_gt :: "jsnum \<Rightarrow> jsnum \<Rightarrow> bool" where
  "js_gt (Fin a) (Fin b) = (b < a)"
| "js_gt NaN _ = False"
| "js_gt _ NaN = False"
| "js_gt PInf PInf = False"
| "js_gt PInf _ = True"
| "js_gt _ PInf = False"
| "js_gt NInf _ = False"
| "js_gt _ NInf = True"

definition js_isNaN :: "jsnum \<Rightarrow> bool" where
  "js_isNaN n = (n = NaN)"

text \<open>Truthiness of a number: everything but NaN and zero.\<close>

definition num_truthy :: "jsnum \<Rightarrow> bool" where
  "num_truthy n = (n \<noteq> NaN \<and> n \<noteq> Fin 0)"

text \<open>\<open>Math.round\<close>: the nearest integer, a tie going up.\<close>

fun Math_round :: "jsnum \<Rightarrow> jsnum" where
  "Math_round (Fin a) = Fin (of_int \<lfloor>a + 1 / 2\<rfloor>)"
| "Math_round n = n"

text \<open>
  \<open>arr.reduce((acc, s) => acc + s.amount, 0)\<close> over the amounts, left to right from
  \<open>0\<close>.
\<close>

definition js_sum :: "jsnum list \<Rightarrow> jsnum" where
  "js_sum xs = foldl js_add (Fin 0) xs"

section \<open>Strings and the numeric parsers\<close>

text \<open>
  A string is a list of characters, each standing for one code unit below 256.
\<close>

definition is_digit :: "char \<Rightarrow> bool" where
  "is_digit c = (48 \<le> (of_char c :: nat) \<and> (of_char c :: nat) \<le> 57)"

definition is_ws :: "char \<Rightarrow> bool" where
  "is_ws c = ((of_char c :: nat) \<in> set [9, 10, 11, 12, 13, 32, 160])"

definition digit_char :: "nat \<Rightarrow> char" where
  "digit_char n = ''0123456789'' ! (n mod 10)"

text \<open>The decimal digits of an integer that is not negative, and \<open>String(i)\<close> of an integer.\<close>

function show_digits :: "int \<Rightarrow> string" where
  "show_digits n =
     (if n < 10 then [digit_char (nat n)]
      else show_digits (n div 10) @ [digit_char (nat (n mod 10))])"
  by pat_completeness auto
termination
  by (relation "measure nat") auto

declare show_digits.simps [simp del]

definition show_int :: "int \<Rightarrow> string" where
  "show_int i = (if i < 0 then ''-'' @ show_digits (- i) else show_digits i)"

definition show_nat :: "nat \<Rightarrow> string" where
  "show_nat n = show_int (int n)"

text \<open>The value of a character as a digit of the given radix, if it is one.\<close>

definition digit_of :: "nat \<Rightarrow> char \<Rightarrow> nat option" where
  "digit_of radix c =
     (let k = (of_char c :: nat);
          v = (if 48 \<le> k \<and> k \<le> 57 then k - 48
               else if 97 \<le> k \<and> k \<le> 122 then k - 87
               else if 65 \<le> k \<and> k \<le> 90 then k - 55
               else radix)
      in if v < radix then Some v else None)"

definition radix_val :: "nat \<Rightarrow> string \<Rightarrow> int" where
  "radix_val radix ds =
     foldl (\<lambda>acc c. int radix * acc + (case digit_of radix c of Some v \<Rightarrow> int v | None \<Rightarrow> 0)) 0 ds"

definition scan_sign :: "string \<Rightarrow> bool \<times> string" where
  "scan_sign s =
     (case s of
        [] \<Rightarrow> (False, [])
      | c # r \<Rightarrow>
          if c = CHR ''-'' then (True, r)
          else if c = CHR ''+'' then (False, r)
          else (False, s))"

text \<open>
  The exponent part after a mantissa: \<open>e\<close> or \<open>E\<close>, an optional sign and at least one
  digit; the exponent \<open>0\<close> and the untouched rest when there is none.
\<close>

definition scan_exponent :: "string \<Rightarrow> int \<times> string" where
  "scan_exponent s =
     (case s of
        [] \<Rightarrow> (0, s)
      | c # r \<Rightarrow>
          if c = CHR ''e'' \<or> c = CHR ''E'' then
            (let (neg, r1) = scan_sign r; ds = takeWhile is_digit r1
             in if ds = [] then (0, s)
                else ((if neg then - radix_val 10 ds else radix_val 10 ds),
                      dropWhile is_digit r1))
          else (0, s))"

definition scale10 :: "rat \<Rightarrow> int \<Rightarrow> rat" where
  "scale10 m e = (if 0 \<le> e then m * 10 ^ nat e else m / 10 ^ nat (- e))"

text \<open>
  The longest prefix of a string that is a decimal literal (\<open>StrDecimalLiteral\<close>: a
  sign, \<open>Infinity\<close> or digits with an optional fraction and exponent), with its value
  and the rest of the string; \<open>None\<close> when no prefix is one.
\<close>

definition scan_decimal :: "string \<Rightarrow> (jsnum \<times> string) option" where
  "scan_decimal s =
     (let (neg, r) = scan_sign s in
      if take 8 r = ''Infinity'' then Some (if neg then NInf else PInf, drop 8 r)
      else
        let ip = takeWhile is_digit r;
            r1 = dropWhile is_digit r;
            (fp, r2) =
              (case r1 of
                 [] \<Rightarrow> ([], r1)
               | c # t \<Rightarrow>
                   if c = CHR ''.'' \<and> (ip \<noteq> [] \<or> takeWhile is_digit t \<noteq> [])
                   then (takeWhile is_digit t, dropWhile is_digit t)
                   else ([], r1))
        in if ip = [] \<and> fp = [] then None
           else
             let m = of_int (radix_val 10 ip) + of_int (radix_val 10 fp) / 10 ^ length fp;
                 (e, r3) = scan_exponent r2
             in Some (round_double (scale10 (if neg then - m else m) e), r3))"

text \<open>\<open>parseFloat(s)\<close>: leading white space is skipped, then the longest decimal prefix.\<close>

definition parseFloat :: "string \<Rightarrow> jsnum" where
  "parseFloat s =
     (case scan_decimal (dropWhile is_ws s) of None \<Rightarrow> NaN | Some (v, _) \<Rightarrow> v)"

text \<open>
  \<open>parseInt(s)\<close> with no radix: white space, a sign, \<open>0x\<close> for radix 16, then the
  longest run of digits.
\<close>

definition parseInt :: "string \<Rightarrow> jsnum" where
  "parseInt s =
     (let (neg, r1) = scan_sign (dropWhile is_ws s);
          (radix, r2) =
            (if take 2 r1 = ''0x'' \<or> take 2 r1 = ''0X'' then (16, drop 2 r1) else (10, r1));
          ds = takeWhile (\<lambda>c. digit_of radix c \<noteq> None) r2
      in if ds = [] then NaN
         else round_double (of_int (if neg then - radix_val radix ds else radix_val radix ds)))"

definition trim :: "string \<Rightarrow> string" where
  "trim s = rev (dropWhile is_ws (rev (dropWhile is_ws s)))"

text \<open>
  \<open>Number(s)\<close> of a string: the trimmed string is empty (zero), a literal with a radix
  prefix, or a decimal literal that takes the whole string; NaN otherwise.
\<close>

definition prefixed_literal :: "nat \<Rightarrow> string \<Rightarrow> jsnum" where
  "prefixed_literal radix ds =
     (if ds \<noteq> [] \<and> list_all (\<lambda>c. digit_of radix c \<noteq> None) ds
      then round_double (of_int (radix_val radix ds)) else NaN)"

definition js_Number :: "string \<Rightarrow> jsnum" where
  "js_Number s =
     (let t = trim s in
      if t = [] then Fin 0
      else if take 2 t = ''0x'' \<or> take 2 t = ''0X'' then prefixed_literal 16 (drop 2 t)
      else if take 2 t = ''0o'' \<or> take 2 t = ''0O'' then prefixed_literal 8 (drop 2 t)
      else if take 2 t = ''0b'' \<or> take 2 t = ''0B'' then prefixed_literal 2 (drop 2 t)
      else (case scan_decimal t of Some (v, []) \<Rightarrow> v | _ \<Rightarrow> NaN))"

section \<open>Dates\<close>

text \<open>
  A \<open>Date\<close> object is its time value: milliseconds since 1970-01-01T00:00:00Z, or
  \<open>None\<close> for an Invalid Date. Day numbers and calendar dates are related as in
  ECMAScript (\<open>Day\<close>, \<open>YearFromTime\<close>, \<open>MonthFromTime\<close>, \<open>DateFromTime\<close>, \<open>MakeDay\<close>), in
  the proleptic Gregorian calendar; months count from 1 here.
\<close>

type_synonym jsdate = "int option"

definition msPerDay :: int where
  "msPerDay = 86400000"

definition days_from_civil :: "int \<Rightarrow> int \<Rightarrow> int \<Rightarrow> int" where
  "days_from_civil y m d =
     (let y' = (if m \<le> 2 then y - 1 else y);
          era = y' div 400;
          yoe = y' - era * 400;
          doy = (153 * (if 2 < m then m - 3 else m + 9) + 2) div 5 + d - 1;
          doe = yoe * 365 + yoe div 4 - yoe div 100 + doy
      in era * 146097 + doe - 719468)"

definition civil_from_days :: "int \<Rightarrow> int \<times> int \<times> int" where
  "civil_from_days z0 =
     (let z = z0 + 719468;
          era = z div 146097;
          doe = z - era * 146097;
          yoe = (doe - doe div 1460 + doe div 36524 - doe div 146096) div 365;
          y = yoe + era * 400;
          doy = doe - (365 * yoe + yoe div 4 - yoe div 100);
          mp = (5 * doy + 2) div 153;
          d = doy - (153 * mp + 2) div 5 + 1;
          m = (if mp < 10 then mp + 3 else mp - 9)
      in (if m \<le> 2 then y + 1 else y, m, d))"

text \<open>\<open>WeekDay\<close> of a day number: 0 is Sunday; day 0 (1970-01-01) was a Thursday.\<close>

definition weekDay :: "int \<Rightarrow> nat" where
  "weekDay day = nat ((day + 4) mod 7)"

text \<open>The weekday of a calendar date, 0 for Sunday to 6 for Saturday.\<close>

definition weekday_of_civil :: "int \<Rightarrow> int \<Rightarrow> int \<Rightarrow> nat" where
  "weekday_of_civil y m d = weekDay (days_from_civil y m d)"

definition is_leap :: "int \<Rightarrow> bool" where
  "is_leap y = (y mod 4 = 0 \<and> (y mod 100 \<noteq> 0 \<or> y mod 400 = 0))"

definition days_in_month :: "int \<Rightarrow> int \<Rightarrow> int" where
  "days_in_month y m =
     (if m = 2 then (if is_leap y then 29 else 28)
      else if m = 4 \<or> m = 6 \<or> m = 9 \<or> m = 11 then 30 else 31)"

definition valid_civil :: "int \<Rightarrow> int \<Rightarrow> int \<Rightarrow> bool" where
  "valid_civil y m d = (1 \<le> m \<and> m \<le> 12 \<and> 1 \<le> d \<and> d \<le> days_in_month y m)"

text \<open>\<open>TimeClip\<close>: a time value beyond 8.64e15 ms is an Invalid Date.\<close>

definition timeClip :: "int \<Rightarrow> jsdate" where
  "timeClip t = (if \<bar>t\<bar> \<le> 8640000000000000 then Some t else None)"

text \<open>\<open>new Date(n)\<close> for a number: truncated to an integer and clipped.\<close>

fun new_Date_num :: "jsnum \<Rightarrow> jsdate" where
  "new_Date_num (Fin a) = timeClip (if a < 0 then - \<lfloor>- a\<rfloor> else \<lfloor>a\<rfloor>)"
| "new_Date_num _ = None"

section \<open>The runtime\<close>

text \<open>
  What the code reads from its JavaScript runtime and cannot compute from its
  arguments. The local time zone is a fixed offset from UTC, in minutes east of
  Greenwich (daylight-saving changes are not modelled). \<open>numToString\<close> is \<open>String(n)\<close>
  of a number and \<open>dateToString\<close> is \<open>String(d)\<close> of a Date; \<open>legacyDateParse\<close> is
  \<open>Date.parse\<close> on the strings whose format ECMAScript leaves to the implementation.
  One clock reading serves one call: \<open>nowMs\<close> is \<open>Date.now()\<close>, \<open>nowIso\<close> is
  \<open>new Date().toISOString()\<close>.
\<close>

record runtime =
  nowMs :: int
  nowIso :: string
  tzOffset :: int
  numToString :: "jsnum \<Rightarrow> string"
  dateToString :: "jsdate \<Rightarrow> string"
  legacyDateParse :: "string \<Rightarrow> jsdate"

definition localTime :: "runtime \<Rightarrow> int \<Rightarrow> int" where
  "localTime rt t = t + tzOffset rt * 60000"

text \<open>\<open>UTC(t)\<close>: the time value of a local time.\<close>

definition utcOfLocal :: "runtime \<Rightarrow> int \<Rightarrow> int" where
  "utcOfLocal rt t = t - tzOffset rt * 60000"

definition pad2 :: "int \<Rightarrow> string" where
  "pad2 n = (if n < 10 then ''0'' @ show_int n else show_int n)"

text \<open>
  \<open>d.toLocaleDateString("en-CA")\<close> of a valid Date: the local calendar date as
  year-month-day, the year of the era printed without padding.
\<close>

definition toLocaleDateString :: "runtime \<Rightarrow> int \<Rightarrow> string" where
  "toLocaleDateString rt t =
     (let (y, m, d) = civil_from_days (localTime rt t div msPerDay)
      in show_int (if y \<le> 0 then 1 - y else y) @ ''-'' @ pad2 m @ ''-'' @ pad2 d)"

text \<open>\<open>new Date().toLocaleDateString("en-CA")\<close>: the current local day.\<close>

definition today :: "runtime \<Rightarrow> string" where
  "today rt = toLocaleDateString rt (nowMs rt)"

text \<open>
  \<open>Date.parse\<close> of a string. ECMAScript fixes the date-only form \<open>YYYY-MM-DD\<close>: it is
  midnight UTC of that day. Every other string is left to the implementation.
\<close>

definition parse_iso_date :: "string \<Rightarrow> (int \<times> int \<times> int) option" where
  "parse_iso_date s =
     (if length s = 10 \<and> s ! 4 = CHR ''-'' \<and> s ! 7 = CHR ''-''
         \<and> list_all is_digit (take 4 s) \<and> list_all is_digit (take 2 (drop 5 s))
         \<and> list_all is_digit (drop 8 s)
      then
        (let y = radix_val 10 (take 4 s);
             m = radix_val 10 (take 2 (drop 5 s));
             d = radix_val 10 (drop 8 s)
         in if valid_civil y m d then Some (y, m, d) else None)
      else None)"

definition Date_parse :: "runtime \<Rightarrow> string \<Rightarrow> jsdate" where
  "Date_parse rt s =
     (case parse_iso_date s of
        Some (y, m, d) \<Rightarrow> Some (days_from_civil y m d * msPerDay)
      | None \<Rightarrow> legacyDateParse rt s)"

text \<open>
  \<open>new Date(y, monthIndex, d)\<close>: a local midnight. An argument that is not finite
  gives an Invalid Date; each is truncated to an integer; a year from 0 to 99 stands
  for 1900 plus that year; the month index may overflow into the years.
\<close>

definition js_trunc :: "rat \<Rightarrow> int" where
  "js_trunc a = (if a < 0 then - \<lfloor>- a\<rfloor> else \<lfloor>a\<rfloor>)"

definition new_Date_ymd :: "runtime \<Rightarrow> jsnum \<Rightarrow> jsnum \<Rightarrow> jsnum \<Rightarrow> jsdate" where
  "new_Date_ymd rt y mi d =
     (case (y, mi, d) of
        (Fin y0, Fin m0, Fin d0) \<Rightarrow>
          (let yi = js_trunc y0;
               yr = (if 0 \<le> yi \<and> yi \<le> 99 then 1900 + yi else yi);
               m = js_trunc m0;
               ym = yr + m div 12;
               mn = m mod 12;
               day = days_from_civil ym (mn + 1) 1 + js_trunc d0 - 1
           in timeClip (utcOfLocal rt (day * msPerDay)))
      | _ \<Rightarrow> None)"

text \<open>\<open>d.getDay()\<close>: the local weekday of a valid Date.\<close>

definition getDay :: "runtime \<Rightarrow> int \<Rightarrow> nat" where
  "getDay rt t = weekDay (localTime rt t div msPerDay)"

section \<open>Spreadsheet rows and the column mapping\<close>

text \<open>
  The spreadsheet reader yields rows as objects from column names to cell values: a
  string, a number, a boolean or a Date. \<open>item[key]\<close> of a key the row lacks is
  \<open>undefined\<close> (properties inherited from \<open>Object.prototype\<close> are not modelled).
\<close>

datatype cell = CUndefined | CStr string | CNum jsnum | CBool bool | CDate jsdate

type_synonym row = "(string \<times> cell) list"

definition getProp :: "row \<Rightarrow> string \<Rightarrow> cell" where
  "getProp item key = (case map_of item key of None \<Rightarrow> CUndefined | Some c \<Rightarrow> c)"

fun truthy :: "cell \<Rightarrow> bool" where
  "truthy CUndefined = False"
| "truthy (CStr s) = (s \<noteq> [])"
| "truthy (CNum n) = num_truthy n"
| "truthy (CBool b) = b"
| "truthy (CDate d) = True"

text \<open>\<open>String(v)\<close>.\<close>

fun to_string :: "runtime \<Rightarrow> cell \<Rightarrow> string" where
  "to_string rt CUndefined = ''undefined''"
| "to_string rt (CStr s) = s"
| "to_string rt (CNum n) = numToString rt n"
| "to_string rt (CBool b) = (if b then ''true'' else ''false'')"
| "to_string rt (CDate d) = dateToString rt d"

text \<open>
  The mapping from the five target fields to column names (\<open>mappingSchema\<close> in
  \<open>types.ts\<close>): field \<open>f\<close> of the source is \<open>f_col\<close> here. A field the object lacks is
  \<open>None\<close>; as a property key it reads \<open>"undefined"\<close>.
\<close>

record mapping =
  date_col :: "string option"
  product_col :: "string option"
  category_col :: "string option"
  amount_col :: "string option"
  quantity_col :: "string option"

definition keyOf :: "string option \<Rightarrow> string" where
  "keyOf k = (case k of None \<Rightarrow> ''undefined'' | Some s \<Rightarrow> s)"

text \<open>\<open>!mapping.f\<close> is false: the field is there and is not the empty string.\<close>

definition field_set :: "string option \<Rightarrow> bool" where
  "field_set k = (case k of None \<Rightarrow> False | Some s \<Rightarrow> s \<noteq> [])"

section \<open>The record normalizer (\<open>components/SyncView.tsx\<close>, \<open>finalizeProcess\<close>)\<close>

text \<open>
  \<open>SaleRecord\<close> of \<open>types.ts\<close>; its fields \<open>id\<close> and \<open>product\<close> are \<open>id'\<close> and \<open>product'\<close>
  here.
\<close>

record SaleRecord =
  id' :: string
  date :: string
  product' :: string
  category :: string
  amount :: jsnum
  quantity :: jsnum
  customerZip :: "string option"

text \<open>The Date a cell gave, formatted, or the current local day for an Invalid Date.\<close>

definition format_or_today :: "runtime \<Rightarrow> jsdate \<Rightarrow> string" where
  "format_or_today rt d = (case d of None \<Rightarrow> today rt | Some t \<Rightarrow> toLocaleDateString rt t)"

text \<open>
  \<open>new Date(Math.round((val - 25569) * 86400 * 1000))\<close>: the Date of a spreadsheet
  serial number.
\<close>

definition serial_to_Date :: "jsnum \<Rightarrow> jsdate" where
  "serial_to_Date v =
     new_Date_num (Math_round (js_mul (js_mul (js_sub v (Fin 25569)) (Fin 86400)) (Fin 1000)))"

text \<open>
  \<open>parseDate\<close>, lines 107 to 145. A falsy cell is today. A Date is used as it is. A
  number above 25569 is a serial date, any other number is today. Anything else goes
  through \<open>new Date(val)\<close>: a string is parsed, \<open>true\<close> is the time value 1.
\<close>

definition parseDate :: "runtime \<Rightarrow> cell \<Rightarrow> string" where
  "parseDate rt val =
     (if \<not> truthy val then today rt
      else
        (case val of
           CDate d \<Rightarrow> format_or_today rt d
         | CNum v \<Rightarrow>
             if js_gt v (Fin 25569) then format_or_today rt (serial_to_Date v) else today rt
         | CStr s \<Rightarrow> format_or_today rt (Date_parse rt s)
         | CBool b \<Rightarrow> format_or_today rt (new_Date_num (Fin 1))
         | CUndefined \<Rightarrow> today rt))"

text \<open>\<open>rawAmount.replace(/[^0-9.-]+/g, "")\<close>: only digits, dots and minus signs stay.\<close>

definition strip_amount :: "string \<Rightarrow> string" where
  "strip_amount s = filter (\<lambda>c. is_digit c \<or> c = CHR ''.'' \<or> c = CHR ''-'') s"

text \<open>
  \<open>parseFloat(v)\<close> of a value that is not a string. A number is printed and parsed
  back, which gives the number again; the other values are parsed from their
  string.
\<close>

fun parseFloat_value :: "runtime \<Rightarrow> cell \<Rightarrow> jsnum" where
  "parseFloat_value rt (CNum n) = n"
| "parseFloat_value rt v = parseFloat (to_string rt v)"

definition cleanAmount :: "runtime \<Rightarrow> cell \<Rightarrow> jsnum" where
  "cleanAmount rt rawAmount =
     (case rawAmount of
        CStr s \<Rightarrow> parseFloat (strip_amount s)
      | _ \<Rightarrow> parseFloat_value rt (if truthy rawAmount then rawAmount else CNum (Fin 0)))"

text \<open>The object built for one row, lines 148 to 162.\<close>

definition to_record :: "runtime \<Rightarrow> mapping \<Rightarrow> string \<Rightarrow> nat \<Rightarrow> row \<Rightarrow> SaleRecord" where
  "to_record rt mp fileName idx item =
     (let rawProduct = getProp item (keyOf (product_col mp));
          rawCategory = getProp item (keyOf (category_col mp));
          ca = cleanAmount rt (getProp item (keyOf (amount_col mp)));
          q = parseInt (to_string rt (getProp item (keyOf (quantity_col mp))))
      in \<lparr> id' = fileName @ ''-'' @ show_nat idx @ ''-'' @ show_int (nowMs rt),
           date = parseDate rt (getProp item (keyOf (date_col mp))),
           product' = to_string rt (if truthy rawProduct then rawProduct else CStr ''Unknown''),
           category = to_string rt (if truthy rawCategory then rawCategory else CStr ''General''),
           amount = (if js_isNaN ca then Fin 0 else ca),
           quantity = (if num_truthy q then q else Fin 1),
           customerZip = None \<rparr>)"

text \<open>The filter of line 163.\<close>

definition retained :: "SaleRecord \<Rightarrow> bool" where
  "retained s =
     (js_gt (amount s) (Fin 0) \<or> (product' s \<noteq> ''Unknown'' \<and> product' s \<noteq> []))"

definition newSales :: "runtime \<Rightarrow> mapping \<Rightarrow> string \<Rightarrow> row list \<Rightarrow> SaleRecord list" where
  "newSales rt mp fileName json =
     filter retained (map (\<lambda>(idx, item). to_record rt mp fileName idx item) (enumerate 0 json))"

section \<open>The ledger (\<open>App.tsx\<close>, \<open>updateMaster\<close>)\<close>

text \<open>\<open>MasterRecord\<close> of \<open>types.ts\<close>; its field \<open>id\<close> is \<open>master_id\<close> here.\<close>

record MasterRecord =
  master_id :: string
  name :: string
  lastUpdated :: string
  totalSales :: nat
  totalRevenue :: jsnum
  data :: "SaleRecord list"
  syncedFiles :: "string list option"
  googleFileUrl :: "string option"
  lastStrategicInsight :: "string option"
  analysisTimestamp :: "string option"
  mappingSchema :: "mapping option"

text \<open>
  \<open>updateMaster\<close>, lines 89 to 107: the new state of the application's \<open>master\<close> and
  the number returned. The copy written to local storage is the same record.
\<close>

definition updateMaster ::
  "runtime \<Rightarrow> MasterRecord option \<Rightarrow> SaleRecord list \<Rightarrow> mapping option \<Rightarrow> string option
     \<Rightarrow> MasterRecord option \<times> nat" where
  "updateMaster rt master0 sales schema fileName =
     (case master0 of
        None \<Rightarrow> (None, 0)
      | Some m \<Rightarrow>
          (let updatedData = data m @ sales;
               files = (case syncedFiles m of None \<Rightarrow> [] | Some fs \<Rightarrow> fs);
               updatedSyncedFiles =
                 (case fileName of
                    None \<Rightarrow> files
                  | Some f \<Rightarrow> if f \<noteq> [] \<and> f \<notin> set files then files @ [f] else files)
           in (Some (m\<lparr> data := updatedData,
                        lastUpdated := nowIso rt,
                        totalSales := length updatedData,
                        totalRevenue := js_sum (map amount updatedData),
                        mappingSchema := (case schema of None \<Rightarrow> mappingSchema m | Some s \<Rightarrow> Some s),
                        syncedFiles := Some updatedSyncedFiles \<rparr>),
               length sales)))"

section \<open>The import flow (\<open>components/SyncView.tsx\<close>)\<close>

text \<open>
  The state the view works on: the \<open>master\<close> it is given, and its own state
  variables.
\<close>

record sync_state =
  master :: MasterRecord
  isProcessing :: bool
  processingStep :: string
  syncStatus :: "(bool \<times> nat) option"
  error :: "string option"
  pendingData :: "(row list \<times> string) option"
  manualMapping :: "mapping option"

text \<open>
  \<open>finalizeProcess\<close>, lines 102 to 175: normalize, stop with an error when no record
  is left, else hand the records to \<open>onSync\<close>, which is \<open>updateMaster\<close>.
\<close>

definition finalizeProcess ::
  "runtime \<Rightarrow> sync_state \<Rightarrow> row list \<Rightarrow> mapping \<Rightarrow> string \<Rightarrow> sync_state" where
  "finalizeProcess rt st json mp fileName =
     (let st1 = st\<lparr>processingStep := ''Building master records...''\<rparr>;
          sales = newSales rt mp fileName json
      in if sales = [] then st1\<lparr>error := Some ''No data found.'', isProcessing := False\<rparr>
         else
           (case updateMaster rt (Some (master st1)) sales (Some mp) (Some fileName) of
              (m', addedCount) \<Rightarrow>
                st1\<lparr> master := (case m' of None \<Rightarrow> master st1 | Some m \<Rightarrow> m),
                     syncStatus := Some (True, if addedCount \<noteq> 0 then addedCount else length sales),
                     pendingData := None,
                     isProcessing := False \<rparr>))"

definition emptyMapping :: mapping where
  "emptyMapping = \<lparr> date_col = Some [], product_col = Some [], category_col = Some [],
                    amount_col = Some [], quantity_col = Some [] \<rparr>"

definition already_synced_message :: "string \<Rightarrow> string" where
  "already_synced_message fileName =
     ''File '' @ [CHR 0x22] @ fileName @ [CHR 0x22] @ '' has already been synced.''"

text \<open>
  \<open>processData\<close>, lines 27 to 100. \<open>readSheet\<close> is the spreadsheet reader on the
  file's content: the rows of the first sheet, or the message of the error it throws.
  \<open>askAI\<close> is the column-mapping request on the column names: the mapping parsed from
  the answer, or \<open>None\<close> when the request fails or gives no usable answer (the code
  logs the error and goes on).
\<close>

definition processData ::
  "runtime \<Rightarrow> (string \<Rightarrow> string + row list) \<Rightarrow> (string list \<Rightarrow> mapping option)
     \<Rightarrow> sync_state \<Rightarrow> string \<Rightarrow> string \<Rightarrow> sync_state" where
  "processData rt readSheet askAI st content fileName =
     (let st1 = st\<lparr>isProcessing := True, error := None,
                   processingStep := ''Reading report content...''\<rparr>
      in if (case syncedFiles (master st) of None \<Rightarrow> False | Some fs \<Rightarrow> fileName \<in> set fs)
         then st1\<lparr>error := Some (already_synced_message fileName), isProcessing := False\<rparr>
         else
           (case readSheet content of
              Inl msg \<Rightarrow>
                st1\<lparr>error := Some (if msg = [] then ''Mapping failed.'' else msg),
                    isProcessing := False\<rparr>
            | Inr [] \<Rightarrow>
                st1\<lparr>error := Some ''The selected file appears to be empty.'',
                    isProcessing := False\<rparr>
            | Inr (row1 # rows) \<Rightarrow>
                (let json = row1 # rows;
                     st2 = (case mappingSchema (master st) of
                              None \<Rightarrow> st1\<lparr>processingStep := ''AI is mapping your columns...''\<rparr>
                            | Some m \<Rightarrow> st1);
                     found = (case mappingSchema (master st) of
                                None \<Rightarrow> askAI (map fst row1)
                              | Some m \<Rightarrow> Some m)
                 in case found of
                      None \<Rightarrow>
                        st2\<lparr>pendingData := Some (json, fileName),
                            manualMapping := Some emptyMapping, isProcessing := False\<rparr>
                    | Some mp \<Rightarrow>
                        if \<not> field_set (date_col mp) \<or> \<not> field_set (product_col mp)
                        then st2\<lparr>pendingData := Some (json, fileName),
                                 manualMapping := Some emptyMapping, isProcessing := False\<rparr>
                        else finalizeProcess rt st2 json mp fileName)))"

text \<open>
  The modal of lines 211 to 239, shown while \<open>pendingData\<close> and \<open>manualMapping\<close> are
  set: a select stores a column under a field, Cancel drops the pending data, Sync Now
  calls \<open>finalizeProcess\<close> with the manual mapping as it stands.
\<close>

datatype target_field = F_date | F_product | F_amount | F_category | F_quantity

fun set_field :: "target_field \<Rightarrow> string \<Rightarrow> mapping \<Rightarrow> mapping" where
  "set_field F_date v mp = mp\<lparr>date_col := Some v\<rparr>"
| "set_field F_product v mp = mp\<lparr>product_col := Some v\<rparr>"
| "set_field F_amount v mp = mp\<lparr>amount_col := Some v\<rparr>"
| "set_field F_category v mp = mp\<lparr>category_col := Some v\<rparr>"
| "set_field F_quantity v mp = mp\<lparr>quantity_col := Some v\<rparr>"

definition chooseColumn :: "target_field \<Rightarrow> string \<Rightarrow> sync_state \<Rightarrow> sync_state" where
  "chooseColumn f v st = st\<lparr>manualMapping := map_option (set_field f v) (manualMapping st)\<rparr>"

definition cancelMapping :: "sync_state \<Rightarrow> sync_state" where
  "cancelMapping st = st\<lparr>pendingData := None\<rparr>"

definition syncNow :: "runtime \<Rightarrow> sync_state \<Rightarrow> sync_state" where
  "syncNow rt st =
     (case (pendingData st, manualMapping st) of
        (Some (json, fileName), Some mp) \<Rightarrow> finalizeProcess rt st json mp fileName
      | _ \<Rightarrow> st)"

section \<open>The enrichment step (the \<open>SyncView\<close> variant with categorization)\<close>

text \<open>
  \<open>[...new Set(xs)]\<close>: the distinct elements in the order of their first occurrence.
\<close>

fun uniq :: "'a list \<Rightarrow> 'a list" where
  "uniq [] = []"
| "uniq (x # xs) = x # uniq (filter (\<lambda>y. y \<noteq> x) xs)"

text \<open>The loop of lines 175 to 177: slices of \<open>n\<close> elements.\<close>

function chunks :: "nat \<Rightarrow> 'a list \<Rightarrow> 'a list list" where
  "chunks n xs = (if n = 0 \<or> xs = [] then [] else take n xs # chunks n (drop n xs))"
  by pat_completeness auto
termination
  by (relation "measure (\<lambda>(n, xs). length xs)") auto

declare chunks.simps [simp del]

text \<open>
  A value of the lookup, as the code reads it: a falsy value (\<open>null\<close>, \<open>false\<close>, \<open>0\<close>,
  \<open>""\<close>), or a truthy one with its \<open>category\<close> property, a string or nothing. The
  property \<open>cleanName\<close> is never read.
\<close>

datatype enriched = E_falsy | E_object "string option"

text \<open>
  The answer for one batch is the object parsed from the reply as its entries in
  source order (a later duplicate key wins), or \<open>None\<close> when the request or the parse
  throws. \<open>Object.assign\<close> merges the answers in order; a failed batch adds nothing.
\<close>

definition enrichmentMap ::
  "(string list \<Rightarrow> (string \<times> enriched) list option) \<Rightarrow> string list list
     \<Rightarrow> (string \<rightharpoonup> enriched)" where
  "enrichmentMap askAI batches =
     foldl (\<lambda>acc batch. case askAI batch of None \<Rightarrow> acc | Some kvs \<Rightarrow> acc ++ map_of (rev kvs))
       Map.empty batches"

text \<open>The function mapped over the rows, lines 208 to 217.\<close>

definition applyEnrichment :: "(string \<rightharpoonup> enriched) \<Rightarrow> SaleRecord \<Rightarrow> SaleRecord" where
  "applyEnrichment m sale =
     (case m (product' sale) of
        Some (E_object c) \<Rightarrow>
          sale\<lparr>category :=
                 (case c of
                    None \<Rightarrow> category sale
                  | Some c' \<Rightarrow> if c' \<noteq> [] then c' else category sale)\<rparr>
      | _ \<Rightarrow> sale)"

definition needsEnrichment :: "mapping \<Rightarrow> SaleRecord list \<Rightarrow> bool" where
  "needsEnrichment mp parsedSales =
     (\<not> field_set (category_col mp) \<or> list_ex (\<lambda>s. category s = ''General'') parsedSales)"

text \<open>The enrichment block, lines 166 to 218, on the rows parsed before it.\<close>

definition enrichSales ::
  "mapping \<Rightarrow> (string list \<Rightarrow> (string \<times> enriched) list option) \<Rightarrow> SaleRecord list
     \<Rightarrow> SaleRecord list" where
  "enrichSales mp askAI parsedSales =
     (if needsEnrichment mp parsedSales
      then map (applyEnrichment
                  (enrichmentMap askAI (chunks 50 (uniq (map product' parsedSales)))))
             parsedSales
      else parsedSales)"

section \<open>The dashboard (\<open>components/DashboardView.tsx\<close>)\<close>

datatype TimeRange = TR_all | TR_7d | TR_30d | TR_custom

text \<open>
  \<open>now.setHours(23, 59, 59, 999)\<close>: the last millisecond of the current local day; and
  \<open>cutoff.setDate(now.getDate() - n)\<close>: the same local time \<open>n\<close> days earlier.
\<close>

definition endOfToday :: "runtime \<Rightarrow> int" where
  "endOfToday rt =
     utcOfLocal rt ((localTime rt (nowMs rt) div msPerDay) * msPerDay + msPerDay - 1)"

definition cutoffDate :: "runtime \<Rightarrow> int \<Rightarrow> int" where
  "cutoffDate rt n = endOfToday rt - n * msPerDay"

text \<open>
  \<open>filteredData\<close>, lines 76 to 111. Strings compare by code units, a proper prefix
  first: the order of lists over the order of characters.
\<close>

definition filteredData ::
  "runtime \<Rightarrow> TimeRange \<Rightarrow> string \<Rightarrow> string \<Rightarrow> SaleRecord list \<Rightarrow> SaleRecord list" where
  "filteredData rt timeRange customStart customEnd records =
     (if timeRange = TR_all then records
      else if timeRange = TR_custom \<and> (customStart = [] \<or> customEnd = []) then records
      else
        filter
          (\<lambda>s. if date s = [] then False
               else if timeRange = TR_custom then customStart \<le> date s \<and> date s \<le> customEnd
               else
                 (case Date_parse rt (date s) of
                    None \<Rightarrow> False
                  | Some t \<Rightarrow> cutoffDate rt (if timeRange = TR_7d then 7 else 30) \<le> t))
          records)"

text \<open>
  \<open>stats\<close>, lines 114 to 143. \<open>productMap\<close> is an object from product names to
  \<open>{count, revenue}\<close>, kept here as its entries in insertion order (names that
  \<open>Object.prototype\<close> already has are not modelled).
\<close>

definition stats_totalRevenue :: "SaleRecord list \<Rightarrow> jsnum" where
  "stats_totalRevenue fd = js_sum (map amount fd)"

definition stats_totalItems :: "SaleRecord list \<Rightarrow> jsnum" where
  "stats_totalItems fd = js_sum (map quantity fd)"

record product_stats =
  count :: jsnum
  revenue :: jsnum

fun add_product ::
  "string \<Rightarrow> jsnum \<Rightarrow> jsnum \<Rightarrow> (string \<times> product_stats) list \<Rightarrow> (string \<times> product_stats) list" where
  "add_product k q a [] = [(k, \<lparr>count = js_add (Fin 0) q, revenue = js_add (Fin 0) a\<rparr>)]"
| "add_product k q a ((k', v) # kvs) =
     (if k = k' then (k', \<lparr>count = js_add (count v) q, revenue = js_add (revenue v) a\<rparr>) # kvs
      else (k', v) # add_product k q a kvs)"

definition productMap :: "SaleRecord list \<Rightarrow> (string \<times> product_stats) list" where
  "productMap fd =
     foldl (\<lambda>pm s. add_product (if product' s = [] then ''Unknown'' else product' s)
                     (quantity s) (amount s) pm) [] fd"

text \<open>
  \<open>Object.entries\<close>: the keys that are array indices (canonical decimal integers below
  \<open>2^32 - 1\<close>) come first in ascending order, then the other keys in insertion order.
\<close>

definition is_index_key :: "string \<Rightarrow> bool" where
  "is_index_key k =
     (case k of
        [] \<Rightarrow> False
      | c # cs \<Rightarrow> list_all is_digit k \<and> (cs = [] \<or> c \<noteq> CHR ''0'') \<and> radix_val 10 k < 4294967295)"

definition Object_entries :: "(string \<times> 'a) list \<Rightarrow> (string \<times> 'a) list" where
  "Object_entries kvs =
     sort_key (\<lambda>(k, v). radix_val 10 k) (filter (\<lambda>(k, v). is_index_key k) kvs)
     @ filter (\<lambda>(k, v). \<not> is_index_key k) kvs"

text \<open>
  \<open>arr.sort(cmp)\<close>: a stable sort, an element moving behind another only where \<open>cmp\<close>
  is above zero. ECMAScript fixes the result when \<open>cmp\<close> is a consistent comparator.
\<close>

fun insert_by :: "('a \<Rightarrow> 'a \<Rightarrow> jsnum) \<Rightarrow> 'a \<Rightarrow> 'a list \<Rightarrow> 'a list" where
  "insert_by cmp x [] = [x]"
| "insert_by cmp x (y # ys) =
     (if js_gt (cmp x y) (Fin 0) then y # insert_by cmp x ys else x # y # ys)"

definition js_sort :: "('a \<Rightarrow> 'a \<Rightarrow> jsnum) \<Rightarrow> 'a list \<Rightarrow> 'a list" where
  "js_sort cmp xs = foldr (insert_by cmp) xs []"

definition stats_sortedProducts :: "SaleRecord list \<Rightarrow> (string \<times> product_stats) list" where
  "stats_sortedProducts fd =
     js_sort (\<lambda>a b. js_sub (count (snd b)) (count (snd a))) (Object_entries (productMap fd))"

definition stats_topProduct :: "SaleRecord list \<Rightarrow> (string \<times> product_stats) option" where
  "stats_topProduct fd = (case stats_sortedProducts fd of [] \<Rightarrow> None | p # ps \<Rightarrow> Some p)"

text \<open>
  \<open>x.toFixed(1)\<close>: one digit after the point, a tie rounding away from zero; from
  \<open>1e21\<close> on it is \<open>String(x)\<close>.
\<close>

fun toFixed1 :: "runtime \<Rightarrow> jsnum \<Rightarrow> string" where
  "toFixed1 rt NaN = ''NaN''"
| "toFixed1 rt PInf = ''Infinity''"
| "toFixed1 rt NInf = ''-Infinity''"
| "toFixed1 rt (Fin x) =
     (if 10 ^ 21 \<le> \<bar>x\<bar> then numToString rt (Fin x)
      else
        (let n = \<lfloor>\<bar>x\<bar> * 10 + 1 / 2\<rfloor>
         in (if x < 0 then ''-'' else []) @ show_int (n div 10) @ ''.'' @ show_int (n mod 10)))"

text \<open>The share of the top product, line 394, and the text of the Top Seller card.\<close>

definition topShare :: "SaleRecord list \<Rightarrow> (string \<times> product_stats) \<Rightarrow> jsnum" where
  "topShare fd p = js_mul (js_div (revenue (snd p)) (stats_totalRevenue fd)) (Fin 100)"

definition performanceText :: "runtime \<Rightarrow> SaleRecord list \<Rightarrow> string" where
  "performanceText rt fd =
     (case stats_topProduct fd of
        None \<Rightarrow> ''No data yet.''
      | Some p \<Rightarrow> ''Generating '' @ toFixed1 rt (topShare fd p) @ ''% of revenue.'')"

text \<open>\<open>s.split(sep)\<close> for a separator of one character.\<close>

fun split_on :: "char \<Rightarrow> string \<Rightarrow> string list" where
  "split_on sep [] = [[]]"
| "split_on sep (c # cs) =
     (if c = sep then [] # split_on sep cs
      else (case split_on sep cs of [] \<Rightarrow> [[c]] | p # ps \<Rightarrow> (c # p) # ps))"

text \<open>
  \<open>busiestDays\<close>, lines 159 to 190: the bucket a record's date falls in, if any, and
  the seven buckets \<open>(revenue, quantity)\<close>, Sunday first.
\<close>

definition dayIndex :: "runtime \<Rightarrow> string \<Rightarrow> nat option" where
  "dayIndex rt d =
     (if d = [] \<or> CHR ''-'' \<notin> set d then None
      else
        (case map js_Number (split_on (CHR ''-'') d) of
           [y, m, dd] \<Rightarrow>
             (case new_Date_ymd rt y (js_sub m (Fin 1)) dd of
                None \<Rightarrow> None
              | Some t \<Rightarrow> (if getDay rt t < 7 then Some (getDay rt t) else None))
         | _ \<Rightarrow> None))"

definition busiestDays :: "runtime \<Rightarrow> SaleRecord list \<Rightarrow> (jsnum \<times> jsnum) list" where
  "busiestDays rt fd =
     foldl
       (\<lambda>dayStats s.
          case dayIndex rt (date s) of
            None \<Rightarrow> dayStats
          | Some i \<Rightarrow>
              dayStats[i := (js_add (fst (dayStats ! i)) (amount s),
                             js_add (snd (dayStats ! i)) (quantity s))])
       (replicate 7 (Fin 0, Fin 0)) fd"

text \<open>
  \<open>busiestDays\<close> of the other \<open>DashboardView\<close> in the repository, its lines 106 to 114:
  \<open>new Date(s.date).getDay()\<close> picks the bucket, the string being read by \<open>Date.parse\<close>.
  An Invalid Date has no weekday and changes no bucket.
\<close>

definition busiestDays_parsed :: "runtime \<Rightarrow> SaleRecord list \<Rightarrow> jsnum list" where
  "busiestDays_parsed rt fd =
     foldl
       (\<lambda>counts s.
          case Date_parse rt (date s) of
            None \<Rightarrow> counts
          | Some t \<Rightarrow> counts[getDay rt t := js_add (counts ! getDay rt t) (quantity s)])
       (replicate 7 (Fin 0)) fd"

section \<open>The claims in the words of the specification\<close>

text \<open>
  The retention rule as the specification words it: the amount is above zero, or the
  product is not in \<open>{"", "Unknown"}\<close>.
\<close>

definition spec_retained :: "SaleRecord \<Rightarrow> bool" where
  "spec_retained s = (js_gt (amount s) (Fin 0) \<or> product' s \<notin> {[], ''Unknown''})"

section \<open>Example inputs\<close>

text \<open>
  A runtime five hours west of Greenwich, at 2024-01-07T00:00:00Z. Its \<open>String(n)\<close> is
  right on the integers, the only numbers the examples print.
\<close>

fun ex_numToString :: "jsnum \<Rightarrow> string" where
  "ex_numToString NaN = ''NaN''"
| "ex_numToString PInf = ''Infinity''"
| "ex_numToString NInf = ''-Infinity''"
| "ex_numToString (Fin a) = show_int \<lfloor>a\<rfloor>"

definition ex_runtime :: runtime where
  "ex_runtime =
     \<lparr> nowMs = 1704585600000, nowIso = ''2024-01-07T00:00:00.000Z'', tzOffset = - 300,
       numToString = ex_numToString, dateToString = (\<lambda>d. ''Invalid Date''),
       legacyDateParse = (\<lambda>s. None) \<rparr>"

definition ex_mapping :: mapping where
  "ex_mapping =
     \<lparr> date_col = Some ''Date'', product_col = Some ''Item'', category_col = None,
       amount_col = Some ''Price'', quantity_col = Some ''Qty'' \<rparr>"

definition ex_sale :: "string \<Rightarrow> string \<Rightarrow> rat \<Rightarrow> rat \<Rightarrow> SaleRecord" where
  "ex_sale d p a q =
     \<lparr> id' = ''jan.csv-0-0'', date = d, product' = p, category = ''General'',
       amount = Fin a, quantity = Fin q, customerZip = None \<rparr>"

definition ex_master :: MasterRecord where
  "ex_master =
     \<lparr> master_id = ''k3j9x2m1q'', name = ''Shop'', lastUpdated = ''2024-01-01T00:00:00.000Z'',
       totalSales = 1, totalRevenue = Fin 40,
       data = [ex_sale ''2024-01-01'' ''Ring'' 40 1],
       syncedFiles = Some [''jan.csv''], googleFileUrl = None,
       lastStrategicInsight = None, analysisTimestamp = None, mappingSchema = None \<rparr>"

definition ex_state :: sync_state where
  "ex_state =
     \<lparr> master = ex_master, isProcessing = False, processingStep = [], syncStatus = None,
       error = None, pendingData = None, manualMapping = None \<rparr>"

text \<open>A sheet of one row, with a product and a price and no date.\<close>

definition ex_sheet :: "row list" where
  "ex_sheet = [[(''Item'', CStr ''Bracelet''), (''Price'', CNum (Fin 10))]]"

text \<open>Ten records dated 2024-01-01 to 2024-01-10.\<close>

definition ex_ten_days :: "SaleRecord list" where
  "ex_ten_days =
     map (\<lambda>d. ex_sale d ''Ring'' 40 1)
       [''2024-01-01'', ''2024-01-02'', ''2024-01-03'', ''2024-01-04'', ''2024-01-05'',
        ''2024-01-06'', ''2024-01-07'', ''2024-01-08'', ''2024-01-09'', ''2024-01-10'']"

section \<open>Doubles\<close>

lemma double_overflow_power: "double_overflow = 2 ^ 1024"
  by (simp add: double_overflow_def)

lemma round_double_zero: "round_double 0 = Fin 0"
  by (simp add: round_double_def)

text \<open>
  The sum of the doubles of 0.1 and 0.2 is the double printed as
  0.30000000000000004, not the double of 0.3.
\<close>

lemma tenth_plus_fifth:
  "js_add (parseFloat ''0.1'') (parseFloat ''0.2'') = parseFloat ''0.30000000000000004''
   \<and> parseFloat ''0.30000000000000004'' \<noteq> parseFloat ''0.3''
   \<and> parseFloat ''0.1'' = Fin (3602879701896397 / 36028797018963968)"
  by code_simp

section \<open>Retention of normalized rows\<close>

lemma mem_newSales:
  assumes "i < length json"
  shows "(to_record rt mp fileName i (json ! i) \<in> set (newSales rt mp fileName json))
         = retained (to_record rt mp fileName i (json ! i))"
proof -
  have "(i, json ! i) \<in> set (enumerate 0 json)"
    using assms by (simp add: in_set_enumerate_eq)
  then have "to_record rt mp fileName i (json ! i)
      \<in> set (map (\<lambda>(idx, item). to_record rt mp fileName idx item) (enumerate 0 json))"
    by force
  then show ?thesis by (simp add: newSales_def)
qed

lemma spec_retained_eq: "spec_retained s = retained s"
  by (auto simp: spec_retained_def retained_def)

text \<open>
  C1. For every row of a batch, the record built from it is in the output exactly
  when its amount is above zero or its product is neither the empty string nor
  \<open>"Unknown"\<close>; the output is the list of built records filtered by that rule. A
  record with amount 0 and product \<open>"Unknown"\<close> is dropped, one with amount 0 and
  product \<open>"Widget"\<close> is kept.
\<close>

theorem retention_rule:
  "(\<forall>i < length json.
      (to_record rt mp fileName i (json ! i) \<in> set (newSales rt mp fileName json))
      = spec_retained (to_record rt mp fileName i (json ! i)))
   \<and> newSales rt mp fileName json
      = filter spec_retained
          (map (\<lambda>(idx, item). to_record rt mp fileName idx item) (enumerate 0 json))
   \<and> (\<forall>s. amount s = Fin 0 \<and> product' s = ''Unknown'' \<longrightarrow> \<not> spec_retained s)
   \<and> (\<forall>s. amount s = Fin 0 \<and> product' s = ''Widget'' \<longrightarrow> spec_retained s)"
proof (intro conjI allI impI)
  fix i assume "i < length json"
  then show "(to_record rt mp fileName i (json ! i) \<in> set (newSales rt mp fileName json))
      = spec_retained (to_record rt mp fileName i (json ! i))"
    by (simp add: mem_newSales spec_retained_eq)
next
  have "spec_retained = retained" by (rule ext) (rule spec_retained_eq)
  then show "newSales rt mp fileName json
      = filter spec_retained
          (map (\<lambda>(idx, item). to_record rt mp fileName idx item) (enumerate 0 json))"
    by (simp add: newSales_def)
next
  fix s :: SaleRecord assume "amount s = Fin 0 \<and> product' s = ''Unknown''"
  then show "\<not> spec_retained s" by (simp add: spec_retained_def)
next
  fix s :: SaleRecord assume "amount s = Fin 0 \<and> product' s = ''Widget''"
  then show "spec_retained s" by (simp add: spec_retained_def)
qed

text \<open>
  A sheet of two rows, both of amount 0, the first without a usable product name: only
  the second comes out.
\<close>

theorem retention_rule_witness:
  "map amount (map (\<lambda>(idx, item). to_record ex_runtime ex_mapping ''feb.csv'' idx item)
      (enumerate 0 [[(''Item'', CStr ''Unknown''), (''Price'', CNum (Fin 0))],
        [(''Item'', CStr ''Widget''), (''Price'', CStr ''$0.00'')]])) = [Fin 0, Fin 0]
   \<and> map product' (newSales ex_runtime ex_mapping ''feb.csv''
      [[(''Item'', CStr ''Unknown''), (''Price'', CNum (Fin 0))],
        [(''Item'', CStr ''Widget''), (''Price'', CStr ''$0.00'')]]) = [''Widget'']"
proof -
  let ?json = "[[(''Item'', CStr ''Unknown''), (''Price'', CNum (Fin 0))],
        [(''Item'', CStr ''Widget''), (''Price'', CStr ''$0.00'')]]"
  let ?recs = "map (\<lambda>(idx, item). to_record ex_runtime ex_mapping ''feb.csv'' idx item)
      (enumerate 0 ?json)"
  have a: "map amount ?recs = [Fin 0, Fin 0]" by code_simp
  have b: "map product' (filter spec_retained ?recs) = [''Widget'']" by code_simp
  have "newSales ex_runtime ex_mapping ''feb.csv'' ?json = filter spec_retained ?recs"
    using retention_rule [of ?json ex_runtime ex_mapping "''feb.csv''"] by blast
  with a b show ?thesis by simp
qed

section \<open>The ledger counters\<close>

text \<open>
  C8. After every append, \<open>totalSales\<close> is the length of the resulting \<open>data\<close> and
  \<open>totalRevenue\<close> is the sum of the amounts over it as the code computes it: the
  double additions of \<open>reduce\<close>, from zero, left to right over the concatenated data.
  The counters of the ledger before the append play no part.
\<close>

theorem counters_consistent:
  "\<exists>m'. updateMaster rt (Some m) sales schema fileName = (Some m', length sales)
      \<and> data m' = data m @ sales
      \<and> totalSales m' = length (data m')
      \<and> totalRevenue m' = js_sum (map amount (data m'))
      \<and> totalRevenue m' = foldl js_add (Fin 0) (map amount (data m @ sales))
      \<and> (\<forall>n r. updateMaster rt (Some (m\<lparr>totalSales := n, totalRevenue := r\<rparr>)) sales schema fileName
            = (Some m', length sales))"
  by (cases schema) (simp_all add: updateMaster_def Let_def js_sum_def)

text \<open>
  A ledger whose counters have drifted (7 sales, revenue 1) over one record of amount
  0.1 gets one record of amount 0.2: the counters come out as 2 and
  0.30000000000000004.
\<close>

theorem counters_consistent_witness:
  "\<exists>m'. updateMaster ex_runtime
            (Some (ex_master\<lparr>totalSales := 7, totalRevenue := Fin 1,
                     data := [(ex_sale ''2024-01-01'' ''Ring'' 0 1)\<lparr>amount := parseFloat ''0.1''\<rparr>]\<rparr>))
            [(ex_sale ''2024-01-02'' ''Charm'' 0 1)\<lparr>amount := parseFloat ''0.2''\<rparr>]
            None (Some ''feb.csv'') = (Some m', 1)
      \<and> map amount (data m') = [parseFloat ''0.1'', parseFloat ''0.2'']
      \<and> totalSales m' = 2
      \<and> totalRevenue m' = parseFloat ''0.30000000000000004''"
proof -
  let ?m = "ex_master\<lparr>totalSales := 7, totalRevenue := Fin 1,
                     data := [(ex_sale ''2024-01-01'' ''Ring'' 0 1)\<lparr>amount := parseFloat ''0.1''\<rparr>]\<rparr>"
  let ?sales = "[(ex_sale ''2024-01-02'' ''Charm'' 0 1)\<lparr>amount := parseFloat ''0.2''\<rparr>]"
  obtain m' where u: "updateMaster ex_runtime (Some ?m) ?sales None (Some ''feb.csv'')
        = (Some m', length ?sales)"
    and d: "data m' = data ?m @ ?sales"
    and n: "totalSales m' = length (data m')"
    and s: "totalRevenue m' = js_sum (map amount (data m'))"
    using counters_consistent [of ex_runtime ?m ?sales None "Some ''feb.csv''"] by blast
  have a: "map amount (data m') = [parseFloat ''0.1'', parseFloat ''0.2'']"
    by (simp add: d)
  have e: "js_sum [parseFloat ''0.1'', parseFloat ''0.2''] = parseFloat ''0.30000000000000004''"
    by code_simp
  have "totalRevenue m' = parseFloat ''0.30000000000000004''"
    by (simp only: s a e)
  moreover have "totalSales m' = 2" by (simp add: n d)
  ultimately show ?thesis using u a by auto
qed

section \<open>Duplicate imports\<close>

text \<open>
  C2. An import whose file name is already in \<open>syncedFiles\<close> is rejected before the
  file is read: the outcome is the error state whatever the reader and the mapping
  request would give, no record is added, and the ledger (\<open>data\<close>, \<open>totalSales\<close>,
  \<open>totalRevenue\<close>, \<open>syncedFiles\<close>, \<open>mappingSchema\<close> and the rest) is unchanged.
\<close>

theorem duplicate_import_rejected:
  assumes "syncedFiles (master st) = Some fs" and "fileName \<in> set fs"
  shows "processData rt readSheet askAI st content fileName
           = st\<lparr>isProcessing := False, error := Some (already_synced_message fileName),
                processingStep := ''Reading report content...''\<rparr>
         \<and> master (processData rt readSheet askAI st content fileName) = master st
         \<and> data (master (processData rt readSheet askAI st content fileName)) = data (master st)
         \<and> totalSales (master (processData rt readSheet askAI st content fileName))
             = totalSales (master st)
         \<and> totalRevenue (master (processData rt readSheet askAI st content fileName))
             = totalRevenue (master st)
         \<and> syncedFiles (master (processData rt readSheet askAI st content fileName))
             = syncedFiles (master st)
         \<and> mappingSchema (master (processData rt readSheet askAI st content fileName))
             = mappingSchema (master st)
         \<and> syncStatus (processData rt readSheet askAI st content fileName) = syncStatus st
         \<and> pendingData (processData rt readSheet askAI st content fileName) = pendingData st
         \<and> (\<forall>readSheet' askAI' content'.
               processData rt readSheet' askAI' st content' fileName
               = processData rt readSheet askAI st content fileName)"
  using assms by (simp add: processData_def Let_def)

text \<open>
  \<open>jan.csv\<close> is in the example ledger. Importing it again, with a sheet that would
  give a record, only sets the error.
\<close>

theorem duplicate_import_rejected_witness:
  "processData ex_runtime (\<lambda>c. Inr ex_sheet) (\<lambda>cols. Some ex_mapping) ex_state ''xlsx'' ''jan.csv''
     = ex_state\<lparr>error := Some (''File '' @ [CHR 0x22] @ ''jan.csv'' @ [CHR 0x22] @ '' has already been synced.''),
                processingStep := ''Reading report content...''\<rparr>
   \<and> newSales ex_runtime ex_mapping ''jan.csv'' ex_sheet \<noteq> []"
proof -
  have f: "syncedFiles (master ex_state) = Some [''jan.csv'']"
    by (simp add: ex_state_def ex_master_def)
  have g: "''jan.csv'' \<in> set [''jan.csv'']" by simp
  have n: "newSales ex_runtime ex_mapping ''jan.csv'' ex_sheet \<noteq> []" by code_simp
  have "processData ex_runtime (\<lambda>c. Inr ex_sheet) (\<lambda>cols. Some ex_mapping) ex_state ''xlsx'' ''jan.csv''
     = ex_state\<lparr>isProcessing := False, error := Some (already_synced_message ''jan.csv''),
                processingStep := ''Reading report content...''\<rparr>"
    using duplicate_import_rejected [OF f g] by blast
  then show ?thesis using n by (simp add: already_synced_message_def ex_state_def)
qed

section \<open>Serial dates\<close>

lemma civil_day0: "civil_from_days 0 = (1970, 1, 1)" by code_simp
lemma civil_day1: "civil_from_days 1 = (1970, 1, 2)" by code_simp
lemma show_1970: "show_int 1970 = ''1970''" by code_simp
lemma pad2_1: "pad2 1 = ''01''" by code_simp
lemma pad2_2: "pad2 2 = ''02''" by code_simp
lemma serial_25570: "serial_to_Date (Fin 25570) = Some 86400000" by code_simp

lemma local_day_west:
  assumes "- 1440 < tz" and "tz < (0::int)"
  shows "(86400000 + tz * 60000) div 86400000 = 0"
proof -
  have "0 \<le> 86400000 + tz * 60000" and "86400000 + tz * 60000 < 86400000"
    using assms by linarith+
  then show ?thesis by (rule div_pos_pos_trivial)
qed

lemma local_day_east:
  assumes "0 \<le> tz" and "tz < (1440::int)"
  shows "(86400000 + tz * 60000) div 86400000 = 1"
proof -
  have "(tz * 60000 + 86400000 * 1) div 86400000 = tz * 60000 div 86400000 + 1"
    by (simp only: div_mult_self2 [of 86400000 "tz * 60000" 1])
  moreover have "tz * 60000 div 86400000 = 0"
  proof -
    have "0 \<le> tz * 60000" and "tz * 60000 < 86400000"
      using assms by linarith+
    then show ?thesis by (rule div_pos_pos_trivial)
  qed
  ultimately show ?thesis by (simp add: add.commute)
qed

lemma day_after_epoch_local:
  assumes "- 1440 < tzOffset rt" and "tzOffset rt < 1440"
  shows "toLocaleDateString rt 86400000
           = (if tzOffset rt < 0 then ''1970-01-01'' else ''1970-01-02'')"
proof (cases "tzOffset rt < 0")
  case True
  then show ?thesis
    using assms
    by (simp add: toLocaleDateString_def localTime_def msPerDay_def local_day_west
        civil_day0 show_1970 pad2_1)
next
  case False
  then show ?thesis
    using assms
    by (simp add: toLocaleDateString_def localTime_def msPerDay_def local_day_east
        civil_day1 show_1970 pad2_1 pad2_2)
qed

text \<open>
  C3. A numeric date cell is read as a spreadsheet serial date exactly when it is
  above 25569; any other number gives the current local day. 25569 itself gives the
  current local day. 25570 is the instant 1970-01-02T00:00:00Z, which is 1970-01-01
  in a local time west of Greenwich and 1970-01-02 elsewhere.
\<close>

theorem serial_date_threshold:
  "parseDate rt (CNum v)
     = (if js_gt v (Fin 25569) then format_or_today rt (serial_to_Date v) else today rt)
   \<and> parseDate rt (CNum (Fin 25569)) = today rt
   \<and> serial_to_Date (Fin 25570) = Some 86400000
   \<and> (- 1440 < tzOffset rt \<and> tzOffset rt < 1440 \<longrightarrow>
        parseDate rt (CNum (Fin 25570))
          = (if tzOffset rt < 0 then ''1970-01-01'' else ''1970-01-02''))"
proof (intro conjI impI)
  show "parseDate rt (CNum v)
     = (if js_gt v (Fin 25569) then format_or_today rt (serial_to_Date v) else today rt)"
    by (cases v) (auto simp: parseDate_def num_truthy_def)
  show "parseDate rt (CNum (Fin 25569)) = today rt"
    by (simp add: parseDate_def)
  show "serial_to_Date (Fin 25570) = Some 86400000" by (rule serial_25570)
next
  assume "- 1440 < tzOffset rt \<and> tzOffset rt < 1440"
  then show "parseDate rt (CNum (Fin 25570))
          = (if tzOffset rt < 0 then ''1970-01-01'' else ''1970-01-02'')"
    by (simp add: parseDate_def num_truthy_def serial_25570 format_or_today_def
        day_after_epoch_local)
qed

text \<open>
  Five hours west of Greenwich on 2024-01-06 (local): 25570 is 1970-01-01, 25569 is
  today, and 45000 is 2023-03-14.
\<close>

theorem serial_date_threshold_witness:
  "- 1440 < tzOffset ex_runtime \<and> tzOffset ex_runtime < 1440
   \<and> parseDate ex_runtime (CNum (Fin 25570)) = ''1970-01-01''
   \<and> parseDate ex_runtime (CNum (Fin 25569)) = ''2024-01-06''
   \<and> parseDate ex_runtime (CNum (Fin 45000)) = ''2023-03-14''"
proof -
  have h: "- 1440 < tzOffset ex_runtime \<and> tzOffset ex_runtime < 1440"
    by (simp add: ex_runtime_def)
  have w: "tzOffset ex_runtime < 0" by (simp add: ex_runtime_def)
  have t: "today ex_runtime = ''2024-01-06''" by code_simp
  have g: "js_gt (Fin 45000) (Fin 25569)" by simp
  have f: "format_or_today ex_runtime (serial_to_Date (Fin 45000)) = ''2023-03-14''"
    by code_simp
  note inst = serial_date_threshold [of ex_runtime]
  from inst [of "Fin 45000"] g f
  have a: "parseDate ex_runtime (CNum (Fin 45000)) = ''2023-03-14''" by simp
  from inst [of NaN] h w t show ?thesis using a by simp
qed

section \<open>The custom time range\<close>

text \<open>
  C4. With both bounds of the custom range set, the filter keeps exactly the records
  whose date string is at least the start and at most the end in the order of
  strings. Of ten records dated 2024-01-01 to 2024-01-10, the range 2024-01-03 to
  2024-01-05 keeps the third, fourth and fifth.
\<close>

theorem custom_range_filter:
  "(customStart \<noteq> [] \<and> customEnd \<noteq> [] \<longrightarrow>
      filteredData rt TR_custom customStart customEnd records
        = filter (\<lambda>s. customStart \<le> date s \<and> date s \<le> customEnd) records)
   \<and> (map date records
        = [''2024-01-01'', ''2024-01-02'', ''2024-01-03'', ''2024-01-04'', ''2024-01-05'',
           ''2024-01-06'', ''2024-01-07'', ''2024-01-08'', ''2024-01-09'', ''2024-01-10'']
       \<longrightarrow> filteredData rt TR_custom ''2024-01-03'' ''2024-01-05'' records
             = [records ! 2, records ! 3, records ! 4])"
proof (intro conjI impI)
  assume ne: "customStart \<noteq> [] \<and> customEnd \<noteq> []"
  have nonempty: "\<And>s. customStart \<le> date s \<Longrightarrow> date s \<noteq> []"
    using ne by auto
  show "filteredData rt TR_custom customStart customEnd records
        = filter (\<lambda>s. customStart \<le> date s \<and> date s \<le> customEnd) records"
    using ne by (auto simp: filteredData_def intro!: filter_cong dest: nonempty)
next
  assume d: "map date records
        = [''2024-01-01'', ''2024-01-02'', ''2024-01-03'', ''2024-01-04'', ''2024-01-05'',
           ''2024-01-06'', ''2024-01-07'', ''2024-01-08'', ''2024-01-09'', ''2024-01-10'']"
  then obtain r1 r2 r3 r4 r5 r6 r7 r8 r9 r10 where
    r: "records = [r1, r2, r3, r4, r5, r6, r7, r8, r9, r10]"
    and "date r1 = ''2024-01-01''" "date r2 = ''2024-01-02''" "date r3 = ''2024-01-03''"
      "date r4 = ''2024-01-04''" "date r5 = ''2024-01-05''" "date r6 = ''2024-01-06''"
      "date r7 = ''2024-01-07''" "date r8 = ''2024-01-08''" "date r9 = ''2024-01-09''"
      "date r10 = ''2024-01-10''"
    by (auto simp: map_eq_Cons_conv)
  then show "filteredData rt TR_custom ''2024-01-03'' ''2024-01-05'' records
             = [records ! 2, records ! 3, records ! 4]"
    by (simp add: filteredData_def)
qed

text \<open>The ten example records under that range.\<close>

theorem custom_range_filter_witness:
  "map date (filteredData ex_runtime TR_custom ''2024-01-03'' ''2024-01-05'' ex_ten_days)
     = [''2024-01-03'', ''2024-01-04'', ''2024-01-05'']
   \<and> length (filteredData ex_runtime TR_custom ''2024-01-03'' ''2024-01-05'' ex_ten_days) = 3"
proof -
  have d: "map date ex_ten_days
        = [''2024-01-01'', ''2024-01-02'', ''2024-01-03'', ''2024-01-04'', ''2024-01-05'',
           ''2024-01-06'', ''2024-01-07'', ''2024-01-08'', ''2024-01-09'', ''2024-01-10'']"
    by (simp add: ex_ten_days_def ex_sale_def)
  have "filteredData ex_runtime TR_custom ''2024-01-03'' ''2024-01-05'' ex_ten_days
             = [ex_ten_days ! 2, ex_ten_days ! 3, ex_ten_days ! 4]"
    using custom_range_filter [of "''2024-01-03''" "''2024-01-05''" ex_runtime ex_ten_days] d
    by blast
  then show ?thesis by (simp add: ex_ten_days_def ex_sale_def)
qed

section \<open>Weekday buckets\<close>

lemma days_from_civil_day: "days_from_civil y m 1 + d - 1 = days_from_civil y m d"
  by (simp add: days_from_civil_def Let_def)

lemma js_trunc_of_int: "js_trunc (of_int k) = k"
  by (simp add: js_trunc_def)

lemma local_day_of_midnight: "(day * msPerDay - tz * 60000 + tz * 60000) div msPerDay = day"
  by (simp add: msPerDay_def)

text \<open>
  In \<open>components/DashboardView.tsx\<close> the Date is built from the year, month and day
  of the string, as a local midnight: its weekday is the weekday of that calendar
  date whatever the offset, a year from 0 to 99 being read as 1900 plus the year.
\<close>

lemma getDay_local_midnight:
  assumes "1 \<le> m" and "m \<le> 12"
    and "new_Date_ymd rt (Fin (of_int y)) (Fin (of_int (m - 1))) (Fin (of_int d)) = Some t"
  shows "getDay rt t = weekday_of_civil (if 0 \<le> y \<and> y \<le> 99 then 1900 + y else y) m d"
proof -
  let ?yr = "if 0 \<le> y \<and> y \<le> 99 then 1900 + y else y"
  have m: "(m - 1) div 12 = 0" "(m - 1) mod 12 = m - 1" using assms(1,2) by auto
  have "timeClip (utcOfLocal rt (days_from_civil ?yr m d * msPerDay)) = Some t"
    using assms(3) m
    by (simp add: new_Date_ymd_def Let_def js_trunc_of_int days_from_civil_day
        del: of_int_diff)
  then have "t = days_from_civil ?yr m d * msPerDay - tzOffset rt * 60000"
    by (auto simp: timeClip_def utcOfLocal_def split: if_splits)
  then show ?thesis
    by (simp only: getDay_def localTime_def local_day_of_midnight weekday_of_civil_def)
qed

lemma parts_sunday:
  "map js_Number (split_on (CHR ''-'') ''2024-01-07'') = [Fin 2024, Fin 1, Fin 7]"
  by code_simp

text \<open>2024-01-07, a Sunday, falls in bucket 0 there for every offset.\<close>

lemma dayIndex_sunday:
  assumes "\<bar>tzOffset rt\<bar> \<le> 1440"
  shows "dayIndex rt ''2024-01-07'' = Some 0"
proof -
  have c: "timeClip (utcOfLocal rt (days_from_civil 2024 1 7 * msPerDay))
      = Some (days_from_civil 2024 1 7 * msPerDay - tzOffset rt * 60000)"
    using assms by (simp add: timeClip_def utcOfLocal_def msPerDay_def days_from_civil_def)
  have n: "new_Date_ymd rt (Fin (of_int 2024)) (Fin (of_int (1 - 1))) (Fin (of_int 7))
      = Some (days_from_civil 2024 1 7 * msPerDay - tzOffset rt * 60000)"
    using c by (simp add: new_Date_ymd_def Let_def js_trunc_def days_from_civil_day)
  have g: "getDay rt (days_from_civil 2024 1 7 * msPerDay - tzOffset rt * 60000) = 0"
    using getDay_local_midnight [OF _ _ n] by (simp add: weekday_of_civil_def weekDay_def days_from_civil_def)
  have d: "(''2024-01-07'' = [] \<or> CHR ''-'' \<notin> set ''2024-01-07'') = False" by simp
  show ?thesis
    unfolding dayIndex_def d parts_sunday using n g
    by (simp add: js_sub_def round_double_zero)
qed

text \<open>0050-01-01, a Saturday, falls in the bucket of 1950-01-01, a Sunday.\<close>

lemma two_digit_year_bucket:
  "dayIndex ex_runtime ''0050-01-01'' = Some 0 \<and> weekday_of_civil 50 1 1 = 6"
  by code_simp

text \<open>
  C5. A record dated 2024-01-07, a Sunday, should increment bucket 0 and never
  another one, for every local offset. The \<open>busiestDays\<close> that reads the date with
  \<open>new Date(s.date)\<close> takes the string as midnight UTC: five hours west of Greenwich
  that instant is Saturday evening, and bucket 6 gets the quantity. The \<open>busiestDays\<close>
  of \<open>components/DashboardView.tsx\<close> puts the same record in bucket 0.
\<close>

theorem parsed_weekday_shifts_west:
  "busiestDays_parsed ex_runtime [ex_sale ''2024-01-07'' ''Ring'' 40 1]
     = [Fin 0, Fin 0, Fin 0, Fin 0, Fin 0, Fin 0, Fin 1]
   \<and> weekday_of_civil 2024 1 7 = 0
   \<and> busiestDays ex_runtime [ex_sale ''2024-01-07'' ''Ring'' 40 1]
     = [(Fin 40, Fin 1), (Fin 0, Fin 0), (Fin 0, Fin 0), (Fin 0, Fin 0),
        (Fin 0, Fin 0), (Fin 0, Fin 0), (Fin 0, Fin 0)]"
  by code_simp

section \<open>The share of the top product\<close>

lemma zero_total_share_not_finite:
  assumes "stats_totalRevenue fd = Fin 0"
  shows "topShare fd p
     = (case revenue (snd p) of
          Fin a \<Rightarrow> if a = 0 then NaN else if 0 < a then PInf else NInf
        | r \<Rightarrow> r)"
  using assms by (cases "revenue (snd p)") (auto simp: topShare_def)

text \<open>
  One record of amount 0: the total revenue is 0, the top product's revenue is 0, and
  the card reads \<open>NaN%\<close>.
\<close>

theorem zero_revenue_share_counterexample:
  "stats_totalRevenue [ex_sale ''2024-01-07'' ''Widget'' 0 1] = Fin 0
   \<and> performanceText ex_runtime [ex_sale ''2024-01-07'' ''Widget'' 0 1]
       = ''Generating NaN% of revenue.''"
  by code_simp

text \<open>
  C6, amended. The share of the top product is its revenue over the total revenue
  times 100, printed with one decimal, and nothing tests the total before the
  division. With a total revenue of zero and a top product the card shows \<open>NaN%\<close> when
  that product's revenue is zero too, and \<open>Infinity%\<close> or \<open>-Infinity%\<close> when it is above or
  below zero. Only without any product does the card read \<open>No data yet.\<close>
\<close>

theorem share_unguarded:
  "(stats_topProduct fd = None \<longrightarrow> performanceText rt fd = ''No data yet.'')
   \<and> (\<forall>p. stats_topProduct fd = Some p \<longrightarrow>
          performanceText rt fd
            = ''Generating ''
              @ toFixed1 rt (js_mul (js_div (revenue (snd p)) (stats_totalRevenue fd)) (Fin 100))
              @ ''% of revenue.'')
   \<and> (\<forall>p. stats_topProduct fd = Some p \<and> stats_totalRevenue fd = Fin 0 \<longrightarrow>
          performanceText rt fd
            = ''Generating ''
              @ (case revenue (snd p) of
                   NaN \<Rightarrow> ''NaN''
                 | PInf \<Rightarrow> ''Infinity''
                 | NInf \<Rightarrow> ''-Infinity''
                 | Fin a \<Rightarrow> if a = 0 then ''NaN'' else if 0 < a then ''Infinity'' else ''-Infinity'')
              @ ''% of revenue.'')"
proof (intro conjI allI impI)
  assume "stats_topProduct fd = None"
  then show "performanceText rt fd = ''No data yet.''"
    by (simp add: performanceText_def)
next
  fix p assume "stats_topProduct fd = Some p"
  then show "performanceText rt fd
      = ''Generating ''
        @ toFixed1 rt (js_mul (js_div (revenue (snd p)) (stats_totalRevenue fd)) (Fin 100))
        @ ''% of revenue.''"
    by (simp add: performanceText_def topShare_def)
next
  fix p assume a: "stats_topProduct fd = Some p \<and> stats_totalRevenue fd = Fin 0"
  then have "topShare fd p
     = (case revenue (snd p) of
          Fin a \<Rightarrow> if a = 0 then NaN else if 0 < a then PInf else NInf
        | r \<Rightarrow> r)"
    by (simp add: zero_total_share_not_finite)
  then show "performanceText rt fd
      = ''Generating ''
        @ (case revenue (snd p) of
             NaN \<Rightarrow> ''NaN''
           | PInf \<Rightarrow> ''Infinity''
           | NInf \<Rightarrow> ''-Infinity''
           | Fin a \<Rightarrow> if a = 0 then ''NaN'' else if 0 < a then ''Infinity'' else ''-Infinity'')
        @ ''% of revenue.''"
    using a by (cases "revenue (snd p)") (simp_all add: performanceText_def)
qed

text \<open>The record of amount 0 again, and the empty data set.\<close>

theorem share_unguarded_witness:
  "stats_topProduct [ex_sale ''2024-01-07'' ''Widget'' 0 1]
     = Some (''Widget'', \<lparr>count = Fin 1, revenue = Fin 0\<rparr>)
   \<and> stats_totalRevenue [ex_sale ''2024-01-07'' ''Widget'' 0 1] = Fin 0
   \<and> performanceText ex_runtime [ex_sale ''2024-01-07'' ''Widget'' 0 1]
       = ''Generating NaN% of revenue.''
   \<and> performanceText ex_runtime [] = ''No data yet.''"
proof -
  let ?fd = "[ex_sale ''2024-01-07'' ''Widget'' 0 1]"
  have t: "stats_topProduct ?fd = Some (''Widget'', \<lparr>count = Fin 1, revenue = Fin 0\<rparr>)"
    by code_simp
  have z: "stats_totalRevenue ?fd = Fin 0" by code_simp
  have e: "stats_topProduct [] = None" by code_simp
  from share_unguarded [of ?fd ex_runtime] t z
  have "performanceText ex_runtime ?fd = ''Generating NaN% of revenue.''" by simp
  moreover from share_unguarded [of "[]" ex_runtime] e
  have "performanceText ex_runtime [] = ''No data yet.''" by simp
  ultimately show ?thesis using t z by simp
qed

section \<open>The manual mapping\<close>

text \<open>
  A row in which neither the product column nor the amount column of the mapping can
  be read becomes a record of product \<open>Unknown\<close> and amount 0, which the filter drops.
\<close>

lemma unreadable_row_dropped:
  assumes "getProp item (keyOf (product_col mp)) = CUndefined"
    and "getProp item (keyOf (amount_col mp)) = CUndefined"
  shows "\<not> retained (to_record rt mp fileName idx item)"
proof -
  have z: "parseFloat ''0'' = Fin 0" by code_simp
  show ?thesis
    using assms by (simp add: retained_def to_record_def Let_def cleanAmount_def js_isNaN_def)
qed

lemma newSales_all_dropped:
  assumes "\<forall>item \<in> set json. getProp item (keyOf (product_col mp)) = CUndefined
              \<and> getProp item (keyOf (amount_col mp)) = CUndefined"
  shows "newSales rt mp fileName json = []"
proof -
  have "\<forall>p \<in> set (enumerate 0 json). \<not> retained (to_record rt mp fileName (fst p) (snd p))"
  proof
    fix p assume "p \<in> set (enumerate 0 json)"
    then have "fst p < length json" and "json ! fst p = snd p"
      by (simp_all add: in_set_enumerate_eq)
    then have "snd p \<in> set json" by (metis nth_mem)
    with assms show "\<not> retained (to_record rt mp fileName (fst p) (snd p))"
      by (simp add: unreadable_row_dropped)
  qed
  then show ?thesis
    by (auto simp: newSales_def filter_empty_conv)
qed

lemma unset_date_is_today:
  assumes "getProp item (keyOf (date_col mp)) = CUndefined"
  shows "date (to_record rt mp fileName idx item) = today rt"
  using assms by (simp add: to_record_def Let_def parseDate_def)

text \<open>
  What the fallback does. Without a stored mapping, and with no mapping from the
  request or one that lacks the date or the product, \<open>processData\<close> stops before
  normalization: the rows wait with an empty manual mapping and the ledger is as it
  was. Cancel leaves the ledger as it was. Sync Now is \<open>finalizeProcess\<close> on the manual
  mapping as it stands.
\<close>

lemma manual_mapping_flow:
  "(\<not> (case syncedFiles (master st) of None \<Rightarrow> False | Some fs \<Rightarrow> fileName \<in> set fs)
      \<and> readSheet content = Inr (row1 # rows)
      \<and> mappingSchema (master st) = None
      \<and> (askAI (map fst row1) = None
          \<or> (\<exists>mp. askAI (map fst row1) = Some mp
                \<and> (\<not> field_set (date_col mp) \<or> \<not> field_set (product_col mp))))
     \<longrightarrow> processData rt readSheet askAI st content fileName
          = st\<lparr>isProcessing := False, error := None,
               processingStep := ''AI is mapping your columns...'',
               pendingData := Some (row1 # rows, fileName),
               manualMapping := Some emptyMapping\<rparr>)
   \<and> (pendingData st = Some (json, pname) \<and> manualMapping st = Some mm
        \<longrightarrow> syncNow rt st = finalizeProcess rt st json mm pname)
   \<and> master (cancelMapping st) = master st
   \<and> pendingData (cancelMapping st) = None
   \<and> (getProp item (keyOf (date_col mm)) = CUndefined
        \<longrightarrow> date (to_record rt mm pname idx item) = today rt)
   \<and> (pendingData st = Some (json, pname) \<and> manualMapping st = Some mm
        \<and> (\<forall>item \<in> set json. getProp item (keyOf (product_col mm)) = CUndefined
                \<and> getProp item (keyOf (amount_col mm)) = CUndefined)
        \<longrightarrow> master (syncNow rt st) = master st
            \<and> error (syncNow rt st) = Some ''No data found.'')"
proof -
  have c1: "\<not> (case syncedFiles (master st) of None \<Rightarrow> False | Some fs \<Rightarrow> fileName \<in> set fs)
      \<and> readSheet content = Inr (row1 # rows)
      \<and> mappingSchema (master st) = None
      \<and> (askAI (map fst row1) = None
          \<or> (\<exists>mp. askAI (map fst row1) = Some mp
                \<and> (\<not> field_set (date_col mp) \<or> \<not> field_set (product_col mp))))
     \<longrightarrow> processData rt readSheet askAI st content fileName
          = st\<lparr>isProcessing := False, error := None,
               processingStep := ''AI is mapping your columns...'',
               pendingData := Some (row1 # rows, fileName),
               manualMapping := Some emptyMapping\<rparr>"
    by (auto simp: processData_def Let_def)
  have c2: "pendingData st = Some (json, pname) \<and> manualMapping st = Some mm
        \<longrightarrow> syncNow rt st = finalizeProcess rt st json mm pname"
    by (simp add: syncNow_def)
  have c3: "master (cancelMapping st) = master st" "pendingData (cancelMapping st) = None"
    by (simp_all add: cancelMapping_def)
  have c4: "getProp item (keyOf (date_col mm)) = CUndefined
        \<longrightarrow> date (to_record rt mm pname idx item) = today rt"
    by (simp add: unset_date_is_today)
  have c5: "pendingData st = Some (json, pname) \<and> manualMapping st = Some mm
        \<and> (\<forall>item \<in> set json. getProp item (keyOf (product_col mm)) = CUndefined
                \<and> getProp item (keyOf (amount_col mm)) = CUndefined)
        \<longrightarrow> master (syncNow rt st) = master st
            \<and> error (syncNow rt st) = Some ''No data found.''"
  proof
    assume a: "pendingData st = Some (json, pname) \<and> manualMapping st = Some mm
        \<and> (\<forall>item \<in> set json. getProp item (keyOf (product_col mm)) = CUndefined
                \<and> getProp item (keyOf (amount_col mm)) = CUndefined)"
    then have "newSales rt mm pname json = []" by (simp add: newSales_all_dropped)
    with a show "master (syncNow rt st) = master st
            \<and> error (syncNow rt st) = Some ''No data found.''"
      by (simp add: syncNow_def finalizeProcess_def Let_def)
  qed
  from c1 c2 c3 c4 c5 show ?thesis by (intro conjI)
qed

text \<open>
  C7. The fallback is to block normalization until the user has provided at least the
  date, the product and the amount. \<open>processData\<close> requires the date and the product of
  a stored or requested mapping (\<open>SyncView.tsx\<close>, line 88), the mapping request lists
  date, product and amount as required (line 71), and the modal marks its fields with
  an asterisk (line 221); Sync Now (line 235) calls \<open>finalizeProcess\<close> without that test.
  In this run the mapping request fails and the rows wait for the manual mapping; the
  user chooses a column for the product only and presses Sync Now, the date and the
  amount still unset. The row is normalized with today's date and amount 0 and
  appended to the ledger, the file is marked as synced, and the partial mapping is
  stored as the schema of the ledger. The next import finds that stored mapping, which
  the test of line 88 refuses, and waits for a manual mapping again.
\<close>

theorem sync_now_skips_validation:
  "pendingData (processData ex_runtime (\<lambda>content. Inr ex_sheet) (\<lambda>columns. None)
        ex_state ''xlsx'' ''feb.csv'') = Some (ex_sheet, ''feb.csv'')
   \<and> manualMapping (chooseColumn F_product ''Item''
        (processData ex_runtime (\<lambda>content. Inr ex_sheet) (\<lambda>columns. None)
           ex_state ''xlsx'' ''feb.csv''))
      = Some \<lparr> date_col = Some [], product_col = Some ''Item'', category_col = Some [],
               amount_col = Some [], quantity_col = Some [] \<rparr>
   \<and> map (\<lambda>s. (date s, product' s, amount s, quantity s))
        (data (master (syncNow ex_runtime (chooseColumn F_product ''Item''
           (processData ex_runtime (\<lambda>content. Inr ex_sheet) (\<lambda>columns. None)
              ex_state ''xlsx'' ''feb.csv'')))))
      = [(''2024-01-01'', ''Ring'', Fin 40, Fin 1), (''2024-01-06'', ''Bracelet'', Fin 0, Fin 1)]
   \<and> syncedFiles (master (syncNow ex_runtime (chooseColumn F_product ''Item''
           (processData ex_runtime (\<lambda>content. Inr ex_sheet) (\<lambda>columns. None)
              ex_state ''xlsx'' ''feb.csv''))))
      = Some [''jan.csv'', ''feb.csv'']
   \<and> mappingSchema (master (syncNow ex_runtime (chooseColumn F_product ''Item''
           (processData ex_runtime (\<lambda>content. Inr ex_sheet) (\<lambda>columns. None)
              ex_state ''xlsx'' ''feb.csv''))))
      = Some \<lparr> date_col = Some [], product_col = Some ''Item'', category_col = Some [],
               amount_col = Some [], quantity_col = Some [] \<rparr>
   \<and> pendingData (processData ex_runtime (\<lambda>content. Inr ex_sheet) (\<lambda>columns. None)
        (syncNow ex_runtime (chooseColumn F_product ''Item''
           (processData ex_runtime (\<lambda>content. Inr ex_sheet) (\<lambda>columns. None)
              ex_state ''xlsx'' ''feb.csv'')))
        ''xlsx'' ''mar.csv'')
      = Some (ex_sheet, ''mar.csv'')"
  by code_simp

text \<open>The ledger after that confirmation holds the old record and the new one.\<close>

theorem sync_now_skips_validation_witness:
  "map product'
     (data (master (syncNow ex_runtime (chooseColumn F_product ''Item''
        (processData ex_runtime (\<lambda>content. Inr ex_sheet) (\<lambda>columns. None)
           ex_state ''xlsx'' ''feb.csv'')))))
   = [''Ring'', ''Bracelet'']"
proof -
  let ?d = "data (master (syncNow ex_runtime (chooseColumn F_product ''Item''
        (processData ex_runtime (\<lambda>content. Inr ex_sheet) (\<lambda>columns. None)
           ex_state ''xlsx'' ''feb.csv''))))"
  have "map product' ?d
      = map (\<lambda>t. fst (snd t)) (map (\<lambda>s. (date s, product' s, amount s, quantity s)) ?d)"
    by simp
  also have "\<dots> = map (\<lambda>t. fst (snd t))
      [(''2024-01-01'', ''Ring'', Fin 40, Fin 1), (''2024-01-06'', ''Bracelet'', Fin 0, Fin 1)]"
    using sync_now_skips_validation by (simp only:)
  finally show ?thesis by simp
qed

section \<open>Quantities\<close>








section \<open>The frame of the enrichment step\<close>

lemma applyEnrichment_frame:
  "applyEnrichment m sale
     = sale\<lparr>category :=
              (case m (product' sale) of
                 Some (E_object (Some c)) \<Rightarrow> if c \<noteq> [] then c else category sale
               | _ \<Rightarrow> category sale)\<rparr>"
  by (simp add: applyEnrichment_def split: option.splits enriched.splits)

lemma enrichmentMap_all_failed:
  assumes "\<And>b. askAI b = None"
  shows "enrichmentMap askAI batches = Map.empty"
proof -
  have "foldl (\<lambda>acc batch. case askAI batch of None \<Rightarrow> acc | Some kvs \<Rightarrow> acc ++ map_of (rev kvs))
          m batches = m" for m :: "string \<rightharpoonup> enriched"
    using assms by (induction batches arbitrary: m) simp_all
  then show ?thesis by (simp add: enrichmentMap_def)
qed

lemma enrichmentMap_failed_batch:
  assumes "askAI b = None"
  shows "enrichmentMap askAI (bs1 @ b # bs2) = enrichmentMap askAI (bs1 @ bs2)"
  using assms by (simp add: enrichmentMap_def)

lemma merge_absent_key:
  assumes "m p = None"
    and "\<forall>b \<in> set batches. \<forall>kvs. askAI b = Some kvs \<longrightarrow> p \<notin> fst ` set kvs"
  shows "foldl (\<lambda>acc batch. case askAI batch of None \<Rightarrow> acc | Some kvs \<Rightarrow> acc ++ map_of (rev kvs))
          m batches p = None"
  using assms
proof (induction batches arbitrary: m)
  case Nil
  then show ?case by simp
next
  case (Cons b bs)
  show ?case
  proof (cases "askAI b")
    case None
    with Cons show ?thesis by simp
  next
    case (Some kvs)
    with Cons.prems have "p \<notin> fst ` set kvs" by simp
    then have "map_of (rev kvs) p = None" by (simp add: map_of_eq_None_iff)
    with Cons.prems(1) have "(m ++ map_of (rev kvs)) p = None" by (simp add: map_add_def)
    with Cons Some show ?thesis by simp
  qed
qed

lemma enrichmentMap_absent_key:
  assumes "\<forall>b \<in> set batches. \<forall>kvs. askAI b = Some kvs \<longrightarrow> p \<notin> fst ` set kvs"
  shows "enrichmentMap askAI batches p = None"
  using merge_absent_key [of Map.empty p batches askAI] assms by (simp add: enrichmentMap_def)

text \<open>
  The product \<open>Ring\<close> is a key of the lookup, with the empty string as its category:
  the row keeps its category \<open>General\<close>.
\<close>

theorem lookup_category_counterexample:
  "enrichmentMap (\<lambda>batch. Some [(''Ring'', E_object (Some []))]) (chunks 50 (uniq [''Ring'']))
      ''Ring'' = Some (E_object (Some []))
   \<and> map category
       (enrichSales ex_mapping (\<lambda>batch. Some [(''Ring'', E_object (Some []))])
          [ex_sale ''2024-01-07'' ''Ring'' 40 1])
     = [''General'']"
  by code_simp

text \<open>
  C10, amended. The enrichment step changes nothing but the category of a row: the
  rows stay in number and order, and \<open>id\<close>, \<open>date\<close>, \<open>product\<close>, \<open>amount\<close> and \<open>quantity\<close>
  are as before. A row whose product is a key of the merged lookup takes the looked-up
  category when that is a string that is not empty. A row is returned as it is when
  its product is not a key of the merged lookup, or its entry is falsy or has no
  category or an empty one. A failed batch adds nothing to the merged lookup, which is
  what it would be without that batch; a product that no successful answer names is
  not a key of it. So the products of a failed batch are left unchanged unless the
  answer of another batch names them, and every row is unchanged when all batches
  fail.
\<close>

theorem enrichment_frame:
  "length (enrichSales mp askAI parsedSales) = length parsedSales
   \<and> (\<forall>i < length parsedSales.
        id' (enrichSales mp askAI parsedSales ! i) = id' (parsedSales ! i)
        \<and> date (enrichSales mp askAI parsedSales ! i) = date (parsedSales ! i)
        \<and> product' (enrichSales mp askAI parsedSales ! i) = product' (parsedSales ! i)
        \<and> amount (enrichSales mp askAI parsedSales ! i) = amount (parsedSales ! i)
        \<and> quantity (enrichSales mp askAI parsedSales ! i) = quantity (parsedSales ! i)
        \<and> customerZip (enrichSales mp askAI parsedSales ! i) = customerZip (parsedSales ! i))
   \<and> (needsEnrichment mp parsedSales \<longrightarrow>
        enrichSales mp askAI parsedSales
          = map (applyEnrichment
                   (enrichmentMap askAI (chunks 50 (uniq (map product' parsedSales)))))
              parsedSales)
   \<and> (\<forall>m sale c. m (product' sale) = Some (E_object (Some c)) \<and> c \<noteq> [] \<longrightarrow>
        applyEnrichment m sale = sale\<lparr>category := c\<rparr>)
   \<and> (\<forall>m sale. m (product' sale) \<in> {None, Some E_falsy, Some (E_object None),
                                     Some (E_object (Some []))} \<longrightarrow>
        applyEnrichment m sale = sale)
   \<and> ((\<forall>batch. askAI batch = None) \<longrightarrow> enrichSales mp askAI parsedSales = parsedSales)
   \<and> (askAI b = None \<longrightarrow>
        enrichmentMap askAI (bs1 @ b # bs2) = enrichmentMap askAI (bs1 @ bs2))
   \<and> ((\<forall>batch \<in> set batches. \<forall>kvs. askAI batch = Some kvs \<longrightarrow> p \<notin> fst ` set kvs) \<longrightarrow>
        enrichmentMap askAI batches p = None)"
proof -
  have c1: "length (enrichSales mp askAI parsedSales) = length parsedSales"
    by (simp add: enrichSales_def)
  have c2: "\<forall>i < length parsedSales.
        id' (enrichSales mp askAI parsedSales ! i) = id' (parsedSales ! i)
        \<and> date (enrichSales mp askAI parsedSales ! i) = date (parsedSales ! i)
        \<and> product' (enrichSales mp askAI parsedSales ! i) = product' (parsedSales ! i)
        \<and> amount (enrichSales mp askAI parsedSales ! i) = amount (parsedSales ! i)
        \<and> quantity (enrichSales mp askAI parsedSales ! i) = quantity (parsedSales ! i)
        \<and> customerZip (enrichSales mp askAI parsedSales ! i) = customerZip (parsedSales ! i)"
    by (simp add: enrichSales_def applyEnrichment_frame)
  have c3: "needsEnrichment mp parsedSales \<longrightarrow>
        enrichSales mp askAI parsedSales
          = map (applyEnrichment
                   (enrichmentMap askAI (chunks 50 (uniq (map product' parsedSales)))))
              parsedSales"
    by (simp add: enrichSales_def)
  have c4: "\<forall>m sale c. m (product' sale) = Some (E_object (Some c)) \<and> c \<noteq> [] \<longrightarrow>
        applyEnrichment m sale = sale\<lparr>category := c\<rparr>"
    by (simp add: applyEnrichment_def)
  have c5: "\<forall>m sale. m (product' sale) \<in> {None, Some E_falsy, Some (E_object None),
                                     Some (E_object (Some []))} \<longrightarrow>
        applyEnrichment m sale = sale"
    by (auto simp: applyEnrichment_def)
  have c6: "(\<forall>batch. askAI batch = None) \<longrightarrow> enrichSales mp askAI parsedSales = parsedSales"
  proof
    assume "\<forall>batch. askAI batch = None"
    then have "enrichmentMap askAI (chunks 50 (uniq (map product' parsedSales))) = Map.empty"
      by (simp add: enrichmentMap_all_failed)
    then show "enrichSales mp askAI parsedSales = parsedSales"
      by (simp add: enrichSales_def applyEnrichment_def map_idI)
  qed
  have c7: "askAI b = None \<longrightarrow>
        enrichmentMap askAI (bs1 @ b # bs2) = enrichmentMap askAI (bs1 @ bs2)"
    by (simp add: enrichmentMap_failed_batch)
  have c8: "(\<forall>batch \<in> set batches. \<forall>kvs. askAI batch = Some kvs \<longrightarrow> p \<notin> fst ` set kvs) \<longrightarrow>
        enrichmentMap askAI batches p = None"
    by (simp add: enrichmentMap_absent_key)
  from c1 c2 c3 c4 c5 c6 c7 c8 show ?thesis by (intro conjI)
qed

text \<open>
  One answer with a category for the first product and an entry without category for
  the second, nothing for the third; a request that always fails; and two batches of
  which the second fails while the answer to the first names its product.
\<close>

theorem enrichment_frame_witness:
  "enrichSales ex_mapping
     (\<lambda>batch. Some [(''Gold Ring Sz 6'', E_object (Some ''Rings'')), (''Box'', E_object None)])
     [ex_sale ''2024-01-07'' ''Gold Ring Sz 6'' 40 1, ex_sale ''2024-01-08'' ''Box'' 5 2,
      ex_sale ''2024-01-09'' ''Chain'' 15 1]
   = [(ex_sale ''2024-01-07'' ''Gold Ring Sz 6'' 40 1)\<lparr>category := ''Rings''\<rparr>,
      ex_sale ''2024-01-08'' ''Box'' 5 2, ex_sale ''2024-01-09'' ''Chain'' 15 1]
   \<and> enrichSales ex_mapping (\<lambda>batch. None)
        [ex_sale ''2024-01-07'' ''Gold Ring Sz 6'' 40 1]
      = [ex_sale ''2024-01-07'' ''Gold Ring Sz 6'' 40 1]
   \<and> enrichmentMap
        (\<lambda>batch. if batch = [''Ring'', ''Box''] then Some [(''Chain'', E_object (Some ''Necklaces''))]
                  else None)
        [[''Ring'', ''Box''], [''Chain'']]
      = enrichmentMap
          (\<lambda>batch. if batch = [''Ring'', ''Box''] then Some [(''Chain'', E_object (Some ''Necklaces''))]
                    else None)
          [[''Ring'', ''Box'']]
   \<and> enrichmentMap
        (\<lambda>batch. if batch = [''Ring'', ''Box''] then Some [(''Chain'', E_object (Some ''Necklaces''))]
                  else None)
        [[''Ring'', ''Box''], [''Chain'']] ''Chain''
      = Some (E_object (Some ''Necklaces''))
   \<and> enrichmentMap
        (\<lambda>batch. if batch = [''Ring'', ''Box''] then Some [(''Chain'', E_object (Some ''Necklaces''))]
                  else None)
        [[''Ring'', ''Box''], [''Chain'']] ''Ring''
      = None"
proof -
  let ?ask = "\<lambda>batch :: string list.
     Some [(''Gold Ring Sz 6'', E_object (Some ''Rings'')), (''Box'', E_object None)]"
  let ?ps = "[ex_sale ''2024-01-07'' ''Gold Ring Sz 6'' 40 1, ex_sale ''2024-01-08'' ''Box'' 5 2,
      ex_sale ''2024-01-09'' ''Chain'' 15 1]"
  let ?m = "enrichmentMap ?ask (chunks 50 (uniq (map product' ?ps)))"
  have n: "needsEnrichment ex_mapping ?ps" by code_simp
  have l1: "?m (product' (ex_sale ''2024-01-07'' ''Gold Ring Sz 6'' 40 1))
      = Some (E_object (Some ''Rings'')) \<and> ''Rings'' \<noteq> []" by code_simp
  have l2: "?m (product' (ex_sale ''2024-01-08'' ''Box'' 5 2))
      \<in> {None, Some E_falsy, Some (E_object None), Some (E_object (Some []))}" by code_simp
  have l3: "?m (product' (ex_sale ''2024-01-09'' ''Chain'' 15 1))
      \<in> {None, Some E_falsy, Some (E_object None), Some (E_object (Some []))}" by code_simp
  note f = enrichment_frame [where mp = ex_mapping and askAI = ?ask and parsedSales = ?ps]
  have e: "enrichSales ex_mapping ?ask ?ps = map (applyEnrichment ?m) ?ps"
    using f n by blast
  have a1: "applyEnrichment ?m (ex_sale ''2024-01-07'' ''Gold Ring Sz 6'' 40 1)
      = (ex_sale ''2024-01-07'' ''Gold Ring Sz 6'' 40 1)\<lparr>category := ''Rings''\<rparr>"
    using f l1 by blast
  have a2: "applyEnrichment ?m (ex_sale ''2024-01-08'' ''Box'' 5 2) = ex_sale ''2024-01-08'' ''Box'' 5 2"
    using f l2 by blast
  have a3: "applyEnrichment ?m (ex_sale ''2024-01-09'' ''Chain'' 15 1)
      = ex_sale ''2024-01-09'' ''Chain'' 15 1"
    using f l3 by blast
  have x: "enrichSales ex_mapping (\<lambda>batch. None) [ex_sale ''2024-01-07'' ''Gold Ring Sz 6'' 40 1]
      = [ex_sale ''2024-01-07'' ''Gold Ring Sz 6'' 40 1]"
    using enrichment_frame [where mp = ex_mapping and askAI = "\<lambda>batch. None"
        and parsedSales = "[ex_sale ''2024-01-07'' ''Gold Ring Sz 6'' 40 1]"] by blast
  let ?part = "\<lambda>batch :: string list.
     if batch = [''Ring'', ''Box''] then Some [(''Chain'', E_object (Some ''Necklaces''))] else None"
  have fb: "?part [''Chain''] = None" by simp
  have y: "enrichmentMap ?part ([[''Ring'', ''Box'']] @ [''Chain''] # [])
      = enrichmentMap ?part ([[''Ring'', ''Box'']] @ [])"
    using enrichment_frame [where askAI = ?part and b = "[''Chain'']"
        and ?bs1.0 = "[[''Ring'', ''Box'']]" and ?bs2.0 = "[]"] fb
    by blast
  have k: "enrichmentMap ?part [[''Ring'', ''Box''], [''Chain'']] ''Chain''
      = Some (E_object (Some ''Necklaces''))" by code_simp
  have ab: "\<forall>batch \<in> set [[''Ring'', ''Box''], [''Chain'']]. \<forall>kvs. ?part batch = Some kvs
      \<longrightarrow> ''Ring'' \<notin> fst ` set kvs"
    by auto
  have z: "enrichmentMap ?part [[''Ring'', ''Box''], [''Chain'']] ''Ring'' = None"
    using enrichment_frame [where askAI = ?part
        and batches = "[[''Ring'', ''Box''], [''Chain'']]" and p = "''Ring''"] ab
    by blast
  have h: "map (applyEnrichment ?m) ?ps
      = [applyEnrichment ?m (ex_sale ''2024-01-07'' ''Gold Ring Sz 6'' 40 1),
         applyEnrichment ?m (ex_sale ''2024-01-08'' ''Box'' 5 2),
         applyEnrichment ?m (ex_sale ''2024-01-09'' ''Chain'' 15 1)]"
    by simp
  have first: "enrichSales ex_mapping ?ask ?ps
      = [(ex_sale ''2024-01-07'' ''Gold Ring Sz 6'' 40 1)\<lparr>category := ''Rings''\<rparr>,
         ex_sale ''2024-01-08'' ''Box'' 5 2, ex_sale ''2024-01-09'' ''Chain'' 15 1]"
    by (simp only: e h a1 a2 a3)
  from y have y': "enrichmentMap ?part [[''Ring'', ''Box''], [''Chain'']]
      = enrichmentMap ?part [[''Ring'', ''Box'']]"
    by simp
  from first x y' k z show ?thesis by (intro conjI)
qed

text \<open>
  Fifty-one products, in batches of fifty and one. The second batch fails, and the
  answer to the first names its product \<open>P50\<close>: that row is enriched all the same.
\<close>

lemma failed_batch_product_enriched:
  "category
     (enrichSales ex_mapping
        (\<lambda>batch. if length batch = 50 then Some [(''P50'', E_object (Some ''Rings''))] else None)
        (map (\<lambda>i. ex_sale ''2024-01-07'' (''P'' @ show_int i) 40 1) [0..50]) ! 50)
   = ''Rings''
   \<and> chunks 50 (uniq (map product' (map (\<lambda>i. ex_sale ''2024-01-07'' (''P'' @ show_int i) 40 1) [0..50])))
       ! 1 = [''P50'']"
  by code_simp


end
